theory Spec2Isabelle
  imports Complex_Main
begin

section \<open>Python values and exceptions\<close>

text \<open>
  The exceptions the trainer code can raise. \<open>ReductionDeadlock\<close> stands for a
  collective call that never returns because a peer worker has already failed;
  \<open>ExternalError\<close> for a failure inside a collaborator (file transfer, model
  construction).
\<close>

datatype error =
    AssertionError | ValueError | KeyError | TypeError | AttributeError
  | ZeroDivisionError | UnboundLocalError | NameError | ExternalError | ReductionDeadlock

definition ebind :: "error + 'a \<Rightarrow> ('a \<Rightarrow> error + 'b) \<Rightarrow> error + 'b" where
  "ebind x f = (case x of Inl e \<Rightarrow> Inl e | Inr v \<Rightarrow> f v)"

definition py_assert :: "bool \<Rightarrow> error + unit" where
  "py_assert b = (if b then Inr () else Inl AssertionError)"

text \<open>Values of the configuration dictionary.\<close>

datatype pyval =
    PyNone | PyBool bool | PyInt int | PyStr string | PyList "pyval list"
  | PyDict "(string \<times> pyval) list"

type_synonym config = "string \<Rightarrow> pyval option"

fun truthy :: "pyval \<Rightarrow> bool" where
  "truthy PyNone = False"
| "truthy (PyBool b) = b"
| "truthy (PyInt n) = (n \<noteq> 0)"
| "truthy (PyStr s) = (s \<noteq> [])"
| "truthy (PyList xs) = (xs \<noteq> [])"
| "truthy (PyDict kvs) = (kvs \<noteq> [])"

fun py_len :: "pyval \<Rightarrow> error + nat" where
  "py_len (PyStr s) = Inr (length s)"
| "py_len (PyList xs) = Inr (length xs)"
| "py_len (PyDict kvs) = Inr (length kvs)"
| "py_len _ = Inl TypeError"

text \<open>\<open>d[k]\<close> on a dictionary: a missing key raises KeyError.\<close>

definition getitem :: "(string \<Rightarrow> 'v option) \<Rightarrow> string \<Rightarrow> error + 'v" where
  "getitem d k = (case d k of None \<Rightarrow> Inl KeyError | Some v \<Rightarrow> Inr v)"

text \<open>\<open>v[k]\<close> with a string key on a configuration value: only a dictionary has one.\<close>

fun py_subscript :: "pyval \<Rightarrow> string \<Rightarrow> error + pyval" where
  "py_subscript (PyDict kvs) k = getitem (map_of kvs) k"
| "py_subscript _ k = Inl TypeError"

text \<open>\<open>k in v.keys()\<close>.\<close>

fun py_has_key :: "pyval \<Rightarrow> string \<Rightarrow> error + bool" where
  "py_has_key (PyDict kvs) k = Inr (map_of kvs k \<noteq> None)"
| "py_has_key _ k = Inl AttributeError"

text \<open>\<open>v // n\<close> and \<open>v % n\<close> with the number of workers on the right.\<close>

fun py_floordiv :: "pyval \<Rightarrow> nat \<Rightarrow> error + int" where
  "py_floordiv (PyInt a) n = (if n = 0 then Inl ZeroDivisionError else Inr (a div int n))"
| "py_floordiv (PyBool b) n =
     (if n = 0 then Inl ZeroDivisionError else Inr ((if b then 1 else 0) div int n))"
| "py_floordiv _ n = Inl TypeError"

fun py_mod :: "pyval \<Rightarrow> nat \<Rightarrow> error + int" where
  "py_mod (PyInt a) n = (if n = 0 then Inl ZeroDivisionError else Inr (a mod int n))"
| "py_mod (PyBool b) n =
     (if n = 0 then Inl ZeroDivisionError else Inr ((if b then 1 else 0) mod int n))"
| "py_mod _ n = Inl TypeError"

text \<open>
  \<open>save_freq\<close> and \<open>num_epochs\<close> are used as integers (\<open>%\<close>, \<open>range\<close>); a
  value of another type is outside the model and reported as TypeError.
\<close>

definition config_int :: "config \<Rightarrow> string \<Rightarrow> error + int" where
  "config_int cfg k =
     (case cfg k of None \<Rightarrow> Inl KeyError | Some (PyInt n) \<Rightarrow> Inr n | Some _ \<Rightarrow> Inl TypeError)"

text \<open>\<open>Trainer.check_key\<close>: \<open>assert key in self.config.keys()\<close>.\<close>

definition check_key :: "config \<Rightarrow> string \<Rightarrow> error + unit" where
  "check_key cfg key = py_assert (cfg key \<noteq> None)"

section \<open>Metrics\<close>

text \<open>
  Modelled from the spec: \<open>AverageMeter\<close> of \<open>train_utils\<close>, which is not among the
  sources. The spec's EpochMetrics is a running average over the seen examples,
  mutated by streaming updates that carry a batch value and a weight (the batch
  size). The average is the weighted sum divided by the count; dividing by a count of
  zero raises.
\<close>

record meter =
  meter_sum :: real
  meter_count :: nat
  avg :: real

definition AverageMeter :: meter where
  "AverageMeter = \<lparr>meter_sum = 0, meter_count = 0, avg = 0\<rparr>"

definition meter_update :: "meter \<Rightarrow> real \<Rightarrow> nat \<Rightarrow> error + meter" where
  "meter_update m v n =
     (let s = meter_sum m + v * real n; c = meter_count m + n
      in if c = 0 then Inl ZeroDivisionError
         else Inr \<lparr>meter_sum = s, meter_count = c, avg = s / real c\<rparr>)"

text \<open>
  Modelled from the spec: \<open>reduce_metric\<close> of \<open>train_utils\<close>, which is not among the
  sources. MultiProcess reduction: the per-worker values are summed with equal weight
  and divided by \<open>world_size\<close>. The collective sees every worker's value, so the
  model takes the values by rank.
\<close>

definition reduce_metric :: "(nat \<Rightarrow> real) \<Rightarrow> nat \<Rightarrow> real" where
  "reduce_metric v world = sum_list (map v [0..<world]) / real world"

text \<open>\<open>xm.mesh_reduce(tag, value, np.mean)\<close>: the mean of the replicas' values.\<close>

definition mesh_reduce :: "real list \<Rightarrow> real" where
  "mesh_reduce vs = sum_list vs / real (length vs)"

text \<open>
  Modelled from the spec: \<open>check_best_accuracy\<close> of \<open>train_utils\<close>, which is not
  among the sources. BestTracker.update: the new best is the maximum of the candidate
  and the previous best, and the flag is the strict comparison.
\<close>

definition check_best_accuracy :: "real \<Rightarrow> real \<Rightarrow> real \<times> bool" where
  "check_best_accuracy candidate previous_best =
     (max candidate previous_best, candidate > previous_best)"

text \<open>The three meters of one phase of one epoch.\<close>

record epoch_meters =
  losses_meter :: meter
  top1_meter :: meter
  top5_meter :: meter

definition fresh_meters :: epoch_meters where
  "fresh_meters =
     \<lparr>losses_meter = AverageMeter, top1_meter = AverageMeter, top5_meter = AverageMeter\<rparr>"

text \<open>
  What one worker obtains from one batch: the loss of \<open>loss_func\<close>, the two
  accuracies of \<open>compute_accuracy\<close> and \<open>data.size(0)\<close>.
\<close>

record step_out =
  loss :: real
  acc1 :: real
  acc5 :: real
  size0 :: nat

text \<open>
  The collaborators of the loops. A cluster batch gives every rank its shard. The
  forward pass depends on the model; \<open>optimizer_step\<close> is the backward pass and the
  parameter update; the training loader is re-seeded per epoch (\<open>set_epoch\<close>).
\<close>

record ('m, 'o, 'd) engine =
  loss_func :: "'m \<Rightarrow> 'd \<Rightarrow> step_out"
  optimizer_step :: "'m \<Rightarrow> 'o \<Rightarrow> (nat \<Rightarrow> 'd) \<Rightarrow> 'm \<times> 'o"
  train_loader :: "int \<Rightarrow> (nat \<Rightarrow> 'd) list"
  val_loader :: "(nat \<Rightarrow> 'd) list"

text \<open>
  The values folded into the meters for one batch (train_one_epoch and validate): on
  TPU the worker's own values, otherwise the reduced ones.
\<close>

definition rep_metrics :: "bool \<Rightarrow> nat \<Rightarrow> nat \<Rightarrow> (nat \<Rightarrow> step_out) \<Rightarrow> real \<times> real \<times> real" where
  "rep_metrics tpu world r outs =
     (if tpu then (loss (outs r), acc1 (outs r), acc5 (outs r))
      else (reduce_metric (\<lambda>k. loss (outs k)) world,
            reduce_metric (\<lambda>k. acc1 (outs k)) world,
            reduce_metric (\<lambda>k. acc5 (outs k)) world))"

definition update_meters :: "epoch_meters \<Rightarrow> real \<times> real \<times> real \<Rightarrow> nat \<Rightarrow> error + epoch_meters" where
  "update_meters ms rep n =
     (case rep of (rep_loss, rep_acc1, rep_acc5) \<Rightarrow>
        ebind (meter_update (losses_meter ms) rep_loss n) (\<lambda>l.
        ebind (meter_update (top1_meter ms) rep_acc1 n) (\<lambda>t1.
        ebind (meter_update (top5_meter ms) rep_acc5 n) (\<lambda>t5.
          Inr \<lparr>losses_meter = l, top1_meter = t1, top5_meter = t5\<rparr>))))"

text \<open>
  The progress report at the end of a training step. Off TPU rank 0 prints. Every
  other worker, and every worker on TPU, reports at each step that is a multiple of
  10 and reads the rate tracker there, a local variable that only the TPU branch of
  train_one_epoch binds: off TPU the read raises.
\<close>

definition progress_print :: "bool \<Rightarrow> nat \<Rightarrow> int \<Rightarrow> error + unit" where
  "progress_print tpu r curr_step =
     (if \<not> tpu \<and> r = 0 then Inr ()
      else if curr_step mod 10 = 0 then (if tpu then Inr () else Inl UnboundLocalError)
      else Inr ())"

text \<open>
  The batch loop of train_one_epoch, as worker \<open>r\<close> runs it; \<open>curr_step\<close> is
  \<open>current_epoch * num_batches + i\<close> for the batch at the head of the list. A collective
  call that a surviving worker makes after a peer has raised does not return; off TPU
  that is not represented.
\<close>

fun train_batches ::
  "('m, 'o, 'd) engine \<Rightarrow> bool \<Rightarrow> nat \<Rightarrow> nat \<Rightarrow> int \<Rightarrow> (nat \<Rightarrow> 'd) list \<Rightarrow>
   'm \<times> 'o \<times> epoch_meters \<Rightarrow> error + 'm \<times> 'o \<times> epoch_meters" where
  "train_batches eng tpu world r curr_step [] st = Inr st"
| "train_batches eng tpu world r curr_step (b # bs) (m, opt, ms) =
     (case update_meters ms (rep_metrics tpu world r (\<lambda>k. loss_func eng m (b k)))
             (size0 (loss_func eng m (b r))) of
        Inl e \<Rightarrow> Inl e
      | Inr ms' \<Rightarrow>
          (case progress_print tpu r curr_step of
             Inl e \<Rightarrow> Inl e
           | Inr u \<Rightarrow>
               train_batches eng tpu world r (curr_step + 1) bs
                 (fst (optimizer_step eng m opt b), snd (optimizer_step eng m opt b), ms')))"

text \<open>The batch loop of validate: no parameter update.\<close>

fun validate_batches ::
  "('m, 'o, 'd) engine \<Rightarrow> bool \<Rightarrow> nat \<Rightarrow> nat \<Rightarrow> 'm \<Rightarrow> (nat \<Rightarrow> 'd) list \<Rightarrow>
   epoch_meters \<Rightarrow> error + epoch_meters" where
  "validate_batches eng tpu world r m [] ms = Inr ms"
| "validate_batches eng tpu world r m (b # bs) ms =
     (case update_meters ms (rep_metrics tpu world r (\<lambda>k. loss_func eng m (b k)))
             (size0 (loss_func eng m (b r))) of
        Inl e \<Rightarrow> Inl e
      | Inr ms' \<Rightarrow> validate_batches eng tpu world r m bs ms')"

fun collect :: "(error + 'a) list \<Rightarrow> error + 'a list" where
  "collect [] = Inr []"
| "collect (x # xs) =
     (case x of Inl e \<Rightarrow> Inl e
      | Inr v \<Rightarrow> (case collect xs of Inl e \<Rightarrow> Inl e | Inr vs \<Rightarrow> Inr (v # vs)))"

text \<open>
  The averages recorded at the end of a phase: the worker's own meter averages, and
  on TPU their mean over the replicas (\<open>meters_of k\<close> is what replica \<open>k\<close> computed; a
  replica that failed never joins the reduction).
\<close>

definition epoch_averages ::
  "bool \<Rightarrow> nat \<Rightarrow> (nat \<Rightarrow> error + epoch_meters) \<Rightarrow> epoch_meters \<Rightarrow> error + real \<times> real \<times> real" where
  "epoch_averages tpu world meters_of ms =
     (if tpu then
        (case collect (map meters_of [0..<world]) of
           Inl e \<Rightarrow> Inl ReductionDeadlock
         | Inr peers \<Rightarrow>
             Inr (mesh_reduce (map (\<lambda>p. avg (losses_meter p)) peers),
                  mesh_reduce (map (\<lambda>p. avg (top1_meter p)) peers),
                  mesh_reduce (map (\<lambda>p. avg (top5_meter p)) peers)))
      else Inr (avg (losses_meter ms), avg (top1_meter ms), avg (top5_meter ms)))"

section \<open>Trainer state\<close>

text \<open>\<open>self.results\<close>: three dictionaries with a train and a val list each.\<close>

record series =
  train_series :: "real list"
  val_series :: "real list"

record results =
  losses :: series
  accs_top1 :: series
  accs_top5 :: series

definition empty_results :: results where
  "empty_results =
     \<lparr>losses = \<lparr>train_series = [], val_series = []\<rparr>,
      accs_top1 = \<lparr>train_series = [], val_series = []\<rparr>,
      accs_top5 = \<lparr>train_series = [], val_series = []\<rparr>\<rparr>"

text \<open>
  The values stored in a checkpoint dictionary and in a database record. A value of
  the wrong kind under a key is reported as TypeError when it is read.
\<close>

datatype ('m, 'o) stval =
    Epoch int | StateDict 'm | OptimizerState 'o | Results results | BestAcc real
  | ExpId pyval

type_synonym ('m, 'o) state = "string \<Rightarrow> ('m, 'o) stval option"

text \<open>The MongoInterface: the records saved through it, and whether it was synced.\<close>

record ('m, 'o) mongo =
  saved :: "('m, 'o) state list"
  synced :: bool

text \<open>The checkpoint files under \<open>save_dir\<close>.\<close>

datatype ckpt_file = Snapshot | BestCopy | CadenceCopy int

text \<open>
  The attributes of the trainer object. \<open>results\<close>, \<open>best_acc\<close> and \<open>is_best\<close> are
  absent (\<open>hasattr\<close> is false) until load_checkpoint or the subclass constructor sets
  them; \<open>gpu_ids\<close> is set on GPU only.
\<close>

record ('m, 'o) trainer =
  config :: config
  use_tpu :: bool
  rank :: nat
  world_size :: nat
  gpu_ids :: "pyval option"
  model :: 'm
  optimizer :: 'o
  database :: "('m, 'o) mongo option"
  current_epoch :: int
  results :: "results option"
  best_acc :: "real option"
  is_best :: "bool option"
  save_dir_files :: "ckpt_file \<Rightarrow> ('m, 'o) state option"

definition getattr :: "'a option \<Rightarrow> error + 'a" where
  "getattr a = (case a of None \<Rightarrow> Inl AttributeError | Some v \<Rightarrow> Inr v)"

section \<open>The phases of an epoch\<close>

definition append_train :: "results \<Rightarrow> real \<Rightarrow> real \<Rightarrow> real \<Rightarrow> results" where
  "append_train res average_loss average_top1 average_top5 =
     res\<lparr>losses := (losses res)\<lparr>train_series := train_series (losses res) @ [average_loss]\<rparr>,
         accs_top1 := (accs_top1 res)\<lparr>train_series := train_series (accs_top1 res) @ [average_top1]\<rparr>,
         accs_top5 := (accs_top5 res)\<lparr>train_series := train_series (accs_top5 res) @ [average_top5]\<rparr>\<rparr>"

definition append_val :: "results \<Rightarrow> real \<Rightarrow> real \<Rightarrow> real \<Rightarrow> results" where
  "append_val res average_loss average_top1 average_top5 =
     res\<lparr>losses := (losses res)\<lparr>val_series := val_series (losses res) @ [average_loss]\<rparr>,
         accs_top1 := (accs_top1 res)\<lparr>val_series := val_series (accs_top1 res) @ [average_top1]\<rparr>,
         accs_top5 := (accs_top5 res)\<lparr>val_series := val_series (accs_top5 res) @ [average_top5]\<rparr>\<rparr>"

text \<open>The loop of train_one_epoch over the batches of the current epoch, as worker \<open>r\<close>.\<close>

definition train_loop ::
  "('m, 'o, 'd) engine \<Rightarrow> ('m, 'o) trainer \<Rightarrow> nat \<Rightarrow> error + 'm \<times> 'o \<times> epoch_meters" where
  "train_loop eng s r =
     train_batches eng (use_tpu s) (world_size s) r
       (current_epoch s * int (length (train_loader eng (current_epoch s))))
       (train_loader eng (current_epoch s)) (model s, optimizer s, fresh_meters)"

text \<open>
  \<open>SupervisedImageNetTrainer.train_one_epoch\<close>: the per-worker batch size is read
  from the configuration first, then the loop runs, the averages are taken and
  appended to the history.
\<close>

definition train_one_epoch ::
  "('m, 'o, 'd) engine \<Rightarrow> ('m, 'o) trainer \<Rightarrow> error + ('m, 'o) trainer" where
  "train_one_epoch eng s =
     ebind (getitem (config s) ''optimizer_params'') (\<lambda>params.
     ebind (py_subscript params ''train_batch_size'') (\<lambda>total.
     ebind (py_floordiv total (world_size s)) (\<lambda>batch_size.
     ebind (train_loop eng s (rank s)) (\<lambda>(m, opt, ms).
     ebind (epoch_averages (use_tpu s) (world_size s)
              (\<lambda>k. ebind (train_loop eng s k) (\<lambda>(m', opt', ms'). Inr ms')) ms)
       (\<lambda>(average_loss, average_top1, average_top5).
     ebind (getattr (results s)) (\<lambda>res.
       Inr (s\<lparr>model := m, optimizer := opt,
              results := Some (append_train res average_loss average_top1 average_top5)\<rparr>)))))))"

text \<open>
  The condition written out in validate and again in save_checkpoint:
  \<open>(current_epoch % save_freq == 0) or (current_epoch + 1 == num_epochs)\<close>.
\<close>

definition cadence_hit :: "config \<Rightarrow> int \<Rightarrow> error + bool" where
  "cadence_hit cfg e =
     ebind (config_int cfg ''save_freq'') (\<lambda>F.
       if F = 0 then Inl ZeroDivisionError
       else if e mod F = 0 then Inr True
       else ebind (config_int cfg ''num_epochs'') (\<lambda>N. Inr (e + 1 = N)))"

text \<open>
  The body of validate under its condition: the validation phase (printing and the
  switch of the model to evaluation mode left out).
\<close>

definition validate_phase ::
  "('m, 'o, 'd) engine \<Rightarrow> ('m, 'o) trainer \<Rightarrow> error + ('m, 'o) trainer" where
  "validate_phase eng s =
     (let run = (\<lambda>r. validate_batches eng (use_tpu s) (world_size s) r (model s)
                        (val_loader eng) fresh_meters)
      in ebind (run (rank s)) (\<lambda>ms.
         ebind (epoch_averages (use_tpu s) (world_size s) run ms)
           (\<lambda>(average_loss, average_top1, average_top5).
         ebind (getattr (results s)) (\<lambda>res.
         ebind (getattr (best_acc s)) (\<lambda>best.
           Inr (s\<lparr>results := Some (append_val res average_loss average_top1 average_top5),
                  best_acc := Some (fst (check_best_accuracy average_top1 best)),
                  is_best := Some (snd (check_best_accuracy average_top1 best))\<rparr>))))))"

definition validate ::
  "('m, 'o, 'd) engine \<Rightarrow> ('m, 'o) trainer \<Rightarrow> error + ('m, 'o) trainer" where
  "validate eng s =
     ebind (cadence_hit (config s) (current_epoch s)) (\<lambda>hit.
       if hit then validate_phase eng s else Inr s)"

section \<open>Checkpoints\<close>

text \<open>The dictionary comprehension \<open>{k: curr_state[k] for k in save_keys}\<close>.\<close>

fun select_keys :: "('m, 'o) state \<Rightarrow> string list \<Rightarrow> error + ('m, 'o) state" where
  "select_keys cs [] = Inr Map.empty"
| "select_keys cs (k # ks) =
     (case getitem cs k of Inl e \<Rightarrow> Inl e
      | Inr v \<Rightarrow> (case select_keys cs ks of Inl e \<Rightarrow> Inl e | Inr d \<Rightarrow> Inr (d(k \<mapsto> v))))"

text \<open>\<open>Trainer._save_to_db\<close>.\<close>

definition save_to_db ::
  "('m, 'o) trainer \<Rightarrow> ('m, 'o) state \<Rightarrow> string list \<Rightarrow> error + ('m, 'o) trainer" where
  "save_to_db s curr_state save_keys =
     ebind (getitem (config s) ''exp_id'') (\<lambda>x.
     ebind (select_keys curr_state save_keys) (\<lambda>d.
       if rank s = 0 \<and> database s \<noteq> None
       then Inr (s\<lparr>database :=
                    map_option (\<lambda>db. db\<lparr>saved := saved db @ [[''exp_id'' \<mapsto> ExpId x] ++ d]\<rparr>)
                      (database s)\<rparr>)
       else Inr s))"

text \<open>
  Modelled from the spec: \<open>save_checkpoint\<close> of \<open>train_utils\<close>, which is not among
  the sources. CheckpointManager.save: the full local snapshot is persisted on every
  call and only the coordinating worker writes; on a cadence boundary a
  cadence-tagged copy is kept as well, and when the flag is set a best-tagged copy.
\<close>

definition train_utils_save_checkpoint ::
  "('m, 'o) state \<Rightarrow> bool \<Rightarrow> int option \<Rightarrow> nat \<Rightarrow> bool \<Rightarrow>
   (ckpt_file \<Rightarrow> ('m, 'o) state option) \<Rightarrow> (ckpt_file \<Rightarrow> ('m, 'o) state option)" where
  "train_utils_save_checkpoint st best save_epoch rk tpu files =
     (if rk = 0 then
        (let f1 = files(Snapshot \<mapsto> st);
             f2 = (case save_epoch of None \<Rightarrow> f1 | Some e \<Rightarrow> f1(CadenceCopy e \<mapsto> st))
         in if best then f2(BestCopy \<mapsto> st) else f2)
      else files)"

text \<open>The dictionary \<open>curr_state\<close> that save_checkpoint builds.\<close>

definition curr_state :: "('m, 'o) trainer \<Rightarrow> error + ('m, 'o) state" where
  "curr_state s =
     ebind (getattr (results s)) (\<lambda>res.
     ebind (getattr (best_acc s)) (\<lambda>best.
       Inr [''epoch'' \<mapsto> Epoch (current_epoch s),
            ''state_dict'' \<mapsto> StateDict (model s),
            ''optimizer'' \<mapsto> OptimizerState (optimizer s),
            ''results'' \<mapsto> Results res,
            ''curr_best_acc'' \<mapsto> BestAcc best]))"

text \<open>\<open>SupervisedImageNetTrainer.save_checkpoint\<close>.\<close>

definition save_checkpoint :: "('m, 'o) trainer \<Rightarrow> error + ('m, 'o) trainer" where
  "save_checkpoint s =
     ebind (py_assert (results s \<noteq> None)) (\<lambda>_.
     ebind (check_key (config s) ''save_freq'') (\<lambda>_.
     ebind (curr_state s) (\<lambda>cs.
     ebind (cadence_hit (config s) (current_epoch s)) (\<lambda>hit.
     ebind (if hit then save_to_db s cs [''epoch'', ''results'', ''curr_best_acc'']
            else Inr s) (\<lambda>s1.
     ebind (getattr (is_best s1)) (\<lambda>best.
       Inr (s1\<lparr>save_dir_files :=
                 train_utils_save_checkpoint cs best
                   (if hit then Some (current_epoch s1) else None)
                   (rank s1) (use_tpu s1) (save_dir_files s1)\<rparr>)))))))"

text \<open>
  \<open>os.path.isfile\<close> on the configured path, over the files that hold a checkpoint
  (a directory or a missing path is not a file).
\<close>

fun isfile :: "(string \<Rightarrow> 'f option) \<Rightarrow> pyval \<Rightarrow> error + bool" where
  "isfile fs (PyStr p) = Inr (fs p \<noteq> None)"
| "isfile fs _ = Inl TypeError"

fun torch_load :: "(string \<Rightarrow> 'f option) \<Rightarrow> pyval \<Rightarrow> error + 'f" where
  "torch_load fs (PyStr p) = (case fs p of None \<Rightarrow> Inl ExternalError | Some f \<Rightarrow> Inr f)"
| "torch_load fs _ = Inl TypeError"

fun as_epoch :: "('m, 'o) stval \<Rightarrow> error + int" where
  "as_epoch (Epoch e) = Inr e"
| "as_epoch _ = Inl TypeError"

fun as_results :: "('m, 'o) stval \<Rightarrow> error + results" where
  "as_results (Results r) = Inr r"
| "as_results _ = Inl TypeError"

fun as_state_dict :: "('m, 'o) stval \<Rightarrow> error + 'm" where
  "as_state_dict (StateDict m) = Inr m"
| "as_state_dict _ = Inl TypeError"

fun as_optimizer :: "('m, 'o) stval \<Rightarrow> error + 'o" where
  "as_optimizer (OptimizerState opt) = Inr opt"
| "as_optimizer _ = Inl TypeError"

fun as_best_acc :: "('m, 'o) stval \<Rightarrow> error + real" where
  "as_best_acc (BestAcc b) = Inr b"
| "as_best_acc _ = Inl TypeError"

text \<open>\<open>SupervisedImageNetTrainer.load_checkpoint\<close>.\<close>

definition load_checkpoint ::
  "(string \<Rightarrow> ('m, 'o) state option) \<Rightarrow> ('m, 'o) trainer \<Rightarrow> error + ('m, 'o) trainer" where
  "load_checkpoint fs s =
     ebind (check_key (config s) ''resume_checkpoint'') (\<lambda>_.
     ebind (getitem (config s) ''resume_checkpoint'') (\<lambda>checkpoint_path.
     ebind (isfile fs checkpoint_path) (\<lambda>found.
     if \<not> found then Inl ValueError
     else
     ebind (if use_tpu s then torch_load fs checkpoint_path
            else ebind (getattr (gpu_ids s)) (\<lambda>g.
                 ebind (py_len g) (\<lambda>n.
                 ebind (py_assert (n = 1)) (\<lambda>_. torch_load fs checkpoint_path)))) (\<lambda>cpt.
     ebind (py_assert (cpt ''epoch'' \<noteq> None)) (\<lambda>_.
     ebind (py_assert (cpt ''results'' \<noteq> None)) (\<lambda>_.
     ebind (py_assert (cpt ''state_dict'' \<noteq> None)) (\<lambda>_.
     ebind (py_assert (cpt ''optimizer'' \<noteq> None)) (\<lambda>_.
     ebind (py_assert (cpt ''curr_best_acc'' \<noteq> None)) (\<lambda>_.
     ebind (ebind (getitem cpt ''epoch'') as_epoch) (\<lambda>e.
     ebind (py_assert (results s = None)) (\<lambda>_.
     ebind (ebind (getitem cpt ''results'') as_results) (\<lambda>res.
     ebind (ebind (getitem cpt ''state_dict'') as_state_dict) (\<lambda>m.
     ebind (ebind (getitem cpt ''optimizer'') as_optimizer) (\<lambda>opt.
     ebind (ebind (getitem cpt ''curr_best_acc'') as_best_acc) (\<lambda>best.
       Inr (s\<lparr>current_epoch := e + 1, results := Some res, model := m,
              optimizer := opt, best_acc := Some best\<rparr>))))))))))))))))"

section \<open>The epoch loop\<close>

text \<open>\<open>Trainer.close_db\<close>.\<close>

definition close_db :: "('m, 'o) trainer \<Rightarrow> ('m, 'o) trainer" where
  "close_db s =
     (if rank s = 0 \<and> database s \<noteq> None
      then s\<lparr>database := map_option (\<lambda>db. db\<lparr>synced := True\<rparr>) (database s)\<rparr>
      else s)"

text \<open>
  One iteration of the loop of \<open>Trainer.train\<close>: the epoch counter is set, then the
  three phases run in order (\<open>adjust_learning_rate\<close> does nothing).
\<close>

definition run_epoch ::
  "('m, 'o, 'd) engine \<Rightarrow> ('m, 'o) trainer \<Rightarrow> int \<Rightarrow> error + ('m, 'o) trainer" where
  "run_epoch eng s i =
     ebind (train_one_epoch eng (s\<lparr>current_epoch := i\<rparr>)) (\<lambda>s1.
     ebind (validate eng s1) (\<lambda>s2.
       save_checkpoint s2))"

fun train_epochs ::
  "('m, 'o, 'd) engine \<Rightarrow> ('m, 'o) trainer \<Rightarrow> int list \<Rightarrow> error + ('m, 'o) trainer" where
  "train_epochs eng s [] = Inr s"
| "train_epochs eng s (i # es) =
     (case run_epoch eng s i of
        Inl e \<Rightarrow> Inl e
      | Inr s' \<Rightarrow> train_epochs eng s' es)"

text \<open>\<open>Trainer.train\<close>: \<open>range(self.current_epoch, num_epochs)\<close>, then close_db.\<close>

definition train ::
  "('m, 'o, 'd) engine \<Rightarrow> ('m, 'o) trainer \<Rightarrow> error + ('m, 'o) trainer" where
  "train eng s =
     ebind (check_key (config s) ''save_freq'') (\<lambda>_.
     ebind (check_key (config s) ''num_epochs'') (\<lambda>_.
     ebind (config_int (config s) ''num_epochs'') (\<lambda>N.
     ebind (train_epochs eng s [current_epoch s..N - 1]) (\<lambda>s'.
       Inr (close_db s')))))"

section \<open>Construction\<close>

text \<open>
  What construction takes from outside the trainer: the device runtime, the default
  \<open>USE_MONGODB\<close> of \<open>default_constants\<close> (not among the sources, so a parameter), the
  overridable initialisers (abstract in \<open>Trainer\<close>) by their outcomes, the bucket
  download, the checkpoint files that can be loaded and the files already under
  \<open>save_dir\<close>; for the subclass, the lookup of the transforms of a model and the
  construction of the train and val datasets.
\<close>

record ('m, 'o) environment =
  xla_ordinal :: nat
  xla_world_size :: nat
  cuda_is_available :: bool
  dist_rank :: nat
  dist_world_size :: nat
  USE_MONGODB :: bool
  initialize_model :: "pyval \<Rightarrow> error + 'm"
  initialize_dataloader :: "config \<Rightarrow> nat \<Rightarrow> error + unit"
  initialize_loss_function :: "error + unit"
  initialize_optimizer :: "'m \<Rightarrow> error + 'o"
  download_file_from_bucket :: "pyval \<Rightarrow> nat \<Rightarrow> error + pyval"
  checkpoint_files :: "string \<Rightarrow> ('m, 'o) state option"
  existing_files :: "ckpt_file \<Rightarrow> ('m, 'o) state option"
  MODEL_TRANSFORMS :: "pyval \<Rightarrow> error + unit"
  ImageNetSupervised :: "bool \<Rightarrow> error + unit"

text \<open>\<open>Trainer._set_device\<close>: use_tpu, rank, world_size and gpu_ids.\<close>

definition set_device ::
  "('m, 'o) environment \<Rightarrow> config \<Rightarrow> error + bool \<times> nat \<times> nat \<times> pyval option" where
  "set_device env cfg =
     ebind (check_key cfg ''gpus'') (\<lambda>_.
     ebind (check_key cfg ''tpu'') (\<lambda>_.
     ebind (getitem cfg ''tpu'') (\<lambda>tpu.
     ebind (getitem cfg ''gpus'') (\<lambda>gpus.
       if truthy tpu then
         ebind (py_assert (\<not> truthy gpus)) (\<lambda>_.
           Inr (True, xla_ordinal env, xla_world_size env, None))
       else if truthy gpus then
         ebind (py_assert (cuda_is_available env)) (\<lambda>_.
         ebind (py_assert (\<not> truthy tpu)) (\<lambda>_.
         ebind (py_len gpus) (\<lambda>n.
         ebind (py_assert (n = 1)) (\<lambda>_.
           Inr (False, dist_rank env, dist_world_size env, Some gpus)))))
       else Inl ValueError))))"

text \<open>
  The MongoDB part of \<open>Trainer.__init__\<close>: the three keys are asserted present and
  not None whatever \<open>use_mongodb\<close> says; the interface is created only when it is set.
\<close>

definition connect_db :: "('m, 'o) environment \<Rightarrow> config \<Rightarrow> error + ('m, 'o) mongo option" where
  "connect_db env cfg =
     ebind (py_assert (cfg ''db_name'' \<noteq> None \<and> cfg ''coll_name'' \<noteq> None \<and>
                       cfg ''exp_id'' \<noteq> None)) (\<lambda>_.
     ebind (py_assert (cfg ''db_name'' \<noteq> Some PyNone)) (\<lambda>_.
     ebind (py_assert (cfg ''coll_name'' \<noteq> Some PyNone)) (\<lambda>_.
     ebind (py_assert (cfg ''exp_id'' \<noteq> Some PyNone)) (\<lambda>_.
       if truthy (case cfg ''use_mongodb'' of None \<Rightarrow> PyBool (USE_MONGODB env) | Some v \<Rightarrow> v)
       then
         ebind (py_assert (cfg ''port'' \<noteq> None)) (\<lambda>_.
         ebind (py_assert (cfg ''port'' \<noteq> Some PyNone)) (\<lambda>_.
           Inr (Some \<lparr>saved = [], synced = False\<rparr>)))
       else Inr None))))"

text \<open>
  \<open>Trainer.__init__\<close> on a configuration dictionary, in the order of the source:
  save directory, seed, device, model, dataloaders, loss, optimizer, database,
  \<open>current_epoch = 0\<close>, the copy of the configuration file, and the resume. On TPU
  the checkpoint is first downloaded and the configured path replaced by the local
  one (the removal of that file after the load is left out).
\<close>

definition Trainer_init ::
  "('m, 'o) environment \<Rightarrow> config \<Rightarrow> error + ('m, 'o) trainer" where
  "Trainer_init env cfg =
     ebind (check_key cfg ''save_dir'') (\<lambda>_.
     ebind (check_key cfg ''seed'') (\<lambda>_.
     ebind (set_device env cfg) (\<lambda>(tpu, rk, world, gids).
     ebind (check_key cfg ''model'') (\<lambda>_.
     ebind (getitem cfg ''model'') (\<lambda>name.
     ebind (initialize_model env name) (\<lambda>m.
     ebind (initialize_dataloader env cfg world) (\<lambda>_.
     ebind (initialize_loss_function env) (\<lambda>_.
     ebind (initialize_optimizer env m) (\<lambda>opt.
     ebind (connect_db env cfg) (\<lambda>db.
     ebind (getitem cfg ''filepath'') (\<lambda>_.
     ebind (check_key cfg ''resume_checkpoint'') (\<lambda>_.
     ebind (getitem cfg ''resume_checkpoint'') (\<lambda>resume.
       let s = \<lparr>config = cfg, use_tpu = tpu, rank = rk, world_size = world, gpu_ids = gids,
                model = m, optimizer = opt, database = db, current_epoch = 0,
                results = None, best_acc = None, is_best = None,
                save_dir_files = existing_files env\<rparr>
       in if resume \<noteq> PyNone then
            (if tpu then
               ebind (download_file_from_bucket env resume rk) (\<lambda>p.
                 load_checkpoint (checkpoint_files env)
                   (s\<lparr>config := cfg(''resume_checkpoint'' \<mapsto> p)\<rparr>))
             else load_checkpoint (checkpoint_files env) s)
          else Inr s)))))))))))))"

text \<open>
  \<open>SupervisedImageNetTrainer.get_imagenet_loaders\<close>: the keys it asserts are the ones
  initialize_dataloader has just set and the transforms are never None, so both
  datasets are built; then it calls \<open>_acquire_data_loader\<close>, a name the module does
  not define (it imports \<open>_acquire_dataloader\<close>).
\<close>

definition get_imagenet_loaders :: "('m, 'o) environment \<Rightarrow> error + unit" where
  "get_imagenet_loaders env =
     ebind (ImageNetSupervised env True) (\<lambda>_.
     ebind (ImageNetSupervised env False) (\<lambda>_.
       Inl NameError))"

text \<open>\<open>wrap_dataloaders\<close> up to its call of the loader function.\<close>

definition wrap_dataloaders :: "('m, 'o) environment \<Rightarrow> pyval \<Rightarrow> pyval \<Rightarrow> nat \<Rightarrow> error + unit" where
  "wrap_dataloaders env train_batch_size val_batch_size world =
     ebind (py_mod train_batch_size world) (\<lambda>r.
     ebind (py_assert (r = 0)) (\<lambda>_.
     ebind (py_mod val_batch_size world) (\<lambda>r'.
     ebind (py_assert (r' = 0)) (\<lambda>_.
     ebind (py_floordiv train_batch_size world) (\<lambda>_.
     ebind (py_floordiv val_batch_size world) (\<lambda>_.
       get_imagenet_loaders env))))))"

text \<open>\<open>SupervisedImageNetTrainer.initialize_dataloader\<close>.\<close>

definition supervised_initialize_dataloader ::
  "('m, 'o) environment \<Rightarrow> config \<Rightarrow> nat \<Rightarrow> error + unit" where
  "supervised_initialize_dataloader env cfg world =
     ebind (check_key cfg ''optimizer_params'') (\<lambda>_.
     ebind (check_key cfg ''dataloader_workers'') (\<lambda>_.
     ebind (getitem cfg ''optimizer_params'') (\<lambda>params.
     ebind (py_has_key params ''train_batch_size'') (\<lambda>has_train.
     ebind (py_assert has_train) (\<lambda>_.
     ebind (py_has_key params ''val_batch_size'') (\<lambda>has_val.
     ebind (py_assert has_val) (\<lambda>_.
     ebind (py_subscript params ''train_batch_size'') (\<lambda>train_batch_size.
     ebind (py_subscript params ''val_batch_size'') (\<lambda>val_batch_size.
     ebind (getitem cfg ''dataloader_workers'') (\<lambda>_.
     ebind (getitem cfg ''model'') (\<lambda>model_name.
     ebind (MODEL_TRANSFORMS env model_name) (\<lambda>_.
       wrap_dataloaders env train_batch_size val_batch_size world))))))))))))"

text \<open>
  The body of \<open>SupervisedImageNetTrainer.__init__\<close> after the base constructor: the
  history and the best accuracy get their initial values unless a checkpoint set
  them, and the flag is False.
\<close>

definition supervised_init_attributes :: "('m, 'o) trainer \<Rightarrow> ('m, 'o) trainer" where
  "supervised_init_attributes s =
     s\<lparr>results := Some (case results s of None \<Rightarrow> empty_results | Some r \<Rightarrow> r),
       best_acc := Some (case best_acc s of None \<Rightarrow> - 1 | Some b \<Rightarrow> b),
       is_best := Some False\<rparr>"

text \<open>
  \<open>SupervisedImageNetTrainer.__init__\<close>: the base constructor with the dataloaders
  of this class, then the body above. (The loss function and the optimizer of this
  class stay outcomes of the environment: the constructor does not get that far.)
\<close>

definition SupervisedImageNetTrainer_init ::
  "('m, 'o) environment \<Rightarrow> config \<Rightarrow> error + ('m, 'o) trainer" where
  "SupervisedImageNetTrainer_init env cfg =
     ebind (Trainer_init (env\<lparr>initialize_dataloader := supervised_initialize_dataloader env\<rparr>) cfg)
       (\<lambda>s. Inr (supervised_init_attributes s))"

section \<open>Folding reduced and local values\<close>

text \<open>
  The two ways of building the running metrics of an epoch that the claim on the
  batch metrics tells apart, written from its words and not from the code. In
  \<open>fold_reduced\<close> the values folded for a batch are the means over all workers of the
  loss and of the two accuracies; in \<open>fold_local\<close> they are the values of worker \<open>r\<close>
  alone. The weight is the batch size of worker \<open>r\<close> in both.
\<close>

fun fold_reduced ::
  "('m, 'o, 'd) engine \<Rightarrow> nat \<Rightarrow> nat \<Rightarrow> (nat \<Rightarrow> 'd) list \<Rightarrow>
   'm \<times> 'o \<times> epoch_meters \<Rightarrow> error + 'm \<times> 'o \<times> epoch_meters" where
  "fold_reduced eng world r [] st = Inr st"
| "fold_reduced eng world r (b # bs) (m, opt, ms) =
     (case update_meters ms
             (sum_list (map (\<lambda>k. loss (loss_func eng m (b k))) [0..<world]) / real world,
              sum_list (map (\<lambda>k. acc1 (loss_func eng m (b k))) [0..<world]) / real world,
              sum_list (map (\<lambda>k. acc5 (loss_func eng m (b k))) [0..<world]) / real world)
             (size0 (loss_func eng m (b r))) of
        Inl e \<Rightarrow> Inl e
      | Inr ms' \<Rightarrow>
          fold_reduced eng world r bs
            (fst (optimizer_step eng m opt b), snd (optimizer_step eng m opt b), ms'))"

fun fold_local ::
  "('m, 'o, 'd) engine \<Rightarrow> nat \<Rightarrow> (nat \<Rightarrow> 'd) list \<Rightarrow>
   'm \<times> 'o \<times> epoch_meters \<Rightarrow> error + 'm \<times> 'o \<times> epoch_meters" where
  "fold_local eng r [] st = Inr st"
| "fold_local eng r (b # bs) (m, opt, ms) =
     (case update_meters ms
             (loss (loss_func eng m (b r)), acc1 (loss_func eng m (b r)),
              acc5 (loss_func eng m (b r)))
             (size0 (loss_func eng m (b r))) of
        Inl e \<Rightarrow> Inl e
      | Inr ms' \<Rightarrow>
          fold_local eng r bs
            (fst (optimizer_step eng m opt b), snd (optimizer_step eng m opt b), ms'))"

section \<open>Growth of the history\<close>

text \<open>
  How a history relates to a later one: every list of the later history starts with
  the earlier list, the train lists are longer by \<open>n\<close> and the val lists by \<open>k\<close>.
\<close>

definition series_extends :: "series \<Rightarrow> series \<Rightarrow> nat \<Rightarrow> nat \<Rightarrow> bool" where
  "series_extends x x' n k =
     (take (length (train_series x)) (train_series x') = train_series x \<and>
      length (train_series x') = length (train_series x) + n \<and>
      take (length (val_series x)) (val_series x') = val_series x \<and>
      length (val_series x') = length (val_series x) + k)"

definition history_extends :: "results \<Rightarrow> results \<Rightarrow> nat \<Rightarrow> nat \<Rightarrow> bool" where
  "history_extends res res' n k =
     (series_extends (losses res) (losses res') n k \<and>
      series_extends (accs_top1 res) (accs_top1 res') n k \<and>
      series_extends (accs_top5 res) (accs_top5 res') n k)"

section \<open>A concrete job\<close>

text \<open>
  A job on one GPU worker used to run the definitions: the configuration with the
  keys the code reads, a GPU runtime, and an engine whose shards carry their own
  metrics. The model and optimizer states count the parameter updates.
\<close>

definition demo_config :: "int \<Rightarrow> int \<Rightarrow> config" where
  "demo_config F N =
     [''save_dir'' \<mapsto> PyStr ''out'', ''seed'' \<mapsto> PyInt 0,
      ''gpus'' \<mapsto> PyList [PyInt 0], ''tpu'' \<mapsto> PyBool False,
      ''model'' \<mapsto> PyStr ''resnet18'', ''db_name'' \<mapsto> PyStr ''db'',
      ''coll_name'' \<mapsto> PyStr ''coll'', ''exp_id'' \<mapsto> PyStr ''exp'',
      ''use_mongodb'' \<mapsto> PyBool True, ''port'' \<mapsto> PyInt 27017,
      ''filepath'' \<mapsto> PyStr ''cfg.json'',
      ''resume_checkpoint'' \<mapsto> PyNone,
      ''optimizer_params'' \<mapsto>
        PyDict [(''train_batch_size'', PyInt 8), (''val_batch_size'', PyInt 8)],
      ''dataloader_workers'' \<mapsto> PyInt 4,
      ''save_freq'' \<mapsto> PyInt F, ''num_epochs'' \<mapsto> PyInt N]"

definition demo_env :: "(nat, nat) environment" where
  "demo_env =
     \<lparr>xla_ordinal = 0, xla_world_size = 2, cuda_is_available = True, dist_rank = 0,
      dist_world_size = 1, USE_MONGODB = True,
      initialize_model = (\<lambda>name. Inr 0), initialize_dataloader = (\<lambda>cfg world. Inr ()),
      initialize_loss_function = Inr (), initialize_optimizer = (\<lambda>m. Inr 0),
      download_file_from_bucket = (\<lambda>p rk. Inr p),
      checkpoint_files = Map.empty, existing_files = Map.empty,
      MODEL_TRANSFORMS = (\<lambda>name. Inr ()), ImageNetSupervised = (\<lambda>is_train. Inr ())\<rparr>"

definition shard :: "real \<Rightarrow> real \<Rightarrow> nat \<Rightarrow> step_out" where
  "shard l0 l1 r = \<lparr>loss = (if r = 0 then l0 else l1), acc1 = 50, acc5 = 80, size0 = 4\<rparr>"

definition demo_engine :: "(nat, nat, step_out) engine" where
  "demo_engine =
     \<lparr>loss_func = (\<lambda>m d. d), optimizer_step = (\<lambda>m opt b. (Suc m, Suc opt)),
      train_loader = (\<lambda>e. [shard 1 2]), val_loader = [shard 3 4]\<rparr>"

text \<open>
  The scenario of the spec: three training batches of weight 4 with the per-worker
  losses 1 and 2, 3 and 4, 5 and 6.
\<close>

definition scenario_engine :: "(nat, nat, step_out) engine" where
  "scenario_engine =
     \<lparr>loss_func = (\<lambda>m d. d), optimizer_step = (\<lambda>m opt b. (Suc m, Suc opt)),
      train_loader = (\<lambda>e. [shard 1 2, shard 3 4, shard 5 6]), val_loader = [shard 3 4]\<rparr>"

definition demo_trainer :: "int \<Rightarrow> int \<Rightarrow> (nat, nat) trainer" where
  "demo_trainer F N =
     \<lparr>config = demo_config F N, use_tpu = False, rank = 0, world_size = 1,
      gpu_ids = Some (PyList [PyInt 0]), model = 0, optimizer = 0,
      database = Some \<lparr>saved = [], synced = False\<rparr>, current_epoch = 0,
      results = Some empty_results, best_acc = Some (- 1), is_best = Some False,
      save_dir_files = Map.empty\<rparr>"

text \<open>
  A resumed job: the trainer that saved at epoch 4, the dictionary it saved, the file
  that holds it, and the trainer as the base constructor has it when it calls
  load_checkpoint.
\<close>

definition demo_saved :: "(nat, nat) trainer" where
  "demo_saved =
     (demo_trainer 3 10)\<lparr>current_epoch := 4, model := 5, optimizer := 5, best_acc := Some 50\<rparr>"

definition demo_checkpoint :: "(nat, nat) state" where
  "demo_checkpoint =
     [''epoch'' \<mapsto> Epoch 4, ''state_dict'' \<mapsto> StateDict 5,
      ''optimizer'' \<mapsto> OptimizerState 5, ''results'' \<mapsto> Results empty_results,
      ''curr_best_acc'' \<mapsto> BestAcc 50]"

definition demo_files :: "string \<Rightarrow> (nat, nat) state option" where
  "demo_files = [''ckpt.pt'' \<mapsto> demo_checkpoint]"

definition demo_resume_env :: "(nat, nat) environment" where
  "demo_resume_env = demo_env\<lparr>checkpoint_files := demo_files\<rparr>"

definition demo_resume_config :: "int \<Rightarrow> int \<Rightarrow> config" where
  "demo_resume_config F N = (demo_config F N)(''resume_checkpoint'' \<mapsto> PyStr ''ckpt.pt'')"

definition demo_fresh :: "int \<Rightarrow> int \<Rightarrow> (nat, nat) trainer" where
  "demo_fresh F N =
     \<lparr>config = demo_resume_config F N, use_tpu = False, rank = 0, world_size = 1,
      gpu_ids = Some (PyList [PyInt 0]), model = 0, optimizer = 0,
      database = Some \<lparr>saved = [], synced = False\<rparr>, current_epoch = 0,
      results = None, best_acc = None, is_best = None,
      save_dir_files = Map.empty\<rparr>"

text \<open>
  The trainer the base constructor builds from the configuration of the job; the
  body of the subclass constructor makes \<open>demo_trainer\<close> of it.
\<close>

definition demo_base :: "int \<Rightarrow> int \<Rightarrow> (nat, nat) trainer" where
  "demo_base F N =
     \<lparr>config = demo_config F N, use_tpu = False, rank = 0, world_size = 1,
      gpu_ids = Some (PyList [PyInt 0]), model = 0, optimizer = 0,
      database = Some \<lparr>saved = [], synced = False\<rparr>, current_epoch = 0,
      results = None, best_acc = None, is_best = None,
      save_dir_files = Map.empty\<rparr>"

text \<open>
  The two-worker scenario at epoch 1, whose steps 3, 4 and 5 are no multiples of 10,
  off TPU or on TPU, as worker \<open>r\<close>.
\<close>

definition scenario_trainer :: "bool \<Rightarrow> nat \<Rightarrow> (nat, nat) trainer" where
  "scenario_trainer tpu r =
     (demo_trainer 3 5)\<lparr>use_tpu := tpu, rank := r, world_size := 2, current_epoch := 1\<rparr>"

text \<open>The configuration of the job with the metadata store switched off.\<close>

definition demo_config_off :: config where
  "demo_config_off = (demo_config 3 2)(''use_mongodb'' \<mapsto> PyBool False)"

section \<open>Basic facts\<close>

lemma ebind_Inr [simp]: "ebind (Inr v) f = f v"
  by (simp add: ebind_def)

lemma ebind_Inl [simp]: "ebind (Inl e) f = Inl e"
  by (simp add: ebind_def)

lemma ebind_eq_Inr: "ebind x f = Inr y \<longleftrightarrow> (\<exists>v. x = Inr v \<and> f v = Inr y)"
  by (cases x) simp_all

lemma py_assert_True [simp]: "py_assert True = Inr ()"
  by (simp add: py_assert_def)

lemma py_assert_False [simp]: "py_assert False = Inl AssertionError"
  by (simp add: py_assert_def)

lemma py_assert_eq_Inr [simp]: "py_assert b = Inr u \<longleftrightarrow> b"
  by (simp add: py_assert_def)

lemma getattr_eq_Inr [simp]: "getattr a = Inr v \<longleftrightarrow> a = Some v"
  by (simp add: getattr_def split: option.splits)

lemma getitem_eq_Inr [simp]: "getitem d k = Inr v \<longleftrightarrow> d k = Some v"
  by (simp add: getitem_def split: option.splits)

lemma train_one_epoch_Inr:
  assumes "train_one_epoch eng s = Inr s'"
  shows "\<exists>m opt res a b c. results s = Some res \<and>
           s' = s\<lparr>model := m, optimizer := opt, results := Some (append_train res a b c)\<rparr>"
  using assms unfolding train_one_epoch_def Let_def
  by (clarsimp simp: ebind_eq_Inr) blast

lemma validate_phase_Inr:
  assumes "validate_phase eng s = Inr s'"
  shows "\<exists>res best a b c. results s = Some res \<and> best_acc s = Some best \<and>
           s' = s\<lparr>results := Some (append_val res a b c), best_acc := Some (max b best),
                  is_best := Some (best < b)\<rparr>"
  using assms unfolding validate_phase_def Let_def
  by (clarsimp simp: ebind_eq_Inr check_best_accuracy_def) blast

lemma validate_Inr:
  assumes "validate eng s = Inr s'"
  shows "(cadence_hit (config s) (current_epoch s) = Inr True \<and> validate_phase eng s = Inr s')
       \<or> (cadence_hit (config s) (current_epoch s) = Inr False \<and> s' = s)"
  using assms unfolding validate_def
  by (clarsimp simp: ebind_eq_Inr split: if_splits)

lemma save_to_db_Inr:
  assumes "save_to_db s cs ks = Inr s'"
  shows "\<exists>x d. config s ''exp_id'' = Some x \<and> select_keys cs ks = Inr d \<and>
           s' = (if rank s = 0 \<and> database s \<noteq> None
                 then s\<lparr>database := map_option
                         (\<lambda>db. db\<lparr>saved := saved db @ [[''exp_id'' \<mapsto> ExpId x] ++ d]\<rparr>) (database s)\<rparr>
                 else s)"
proof -
  from assms obtain x where x: "config s ''exp_id'' = Some x"
    unfolding save_to_db_def by (clarsimp simp: ebind_eq_Inr)
  from assms x obtain d where d: "select_keys cs ks = Inr d"
    unfolding save_to_db_def by (clarsimp simp: ebind_eq_Inr getitem_def)
  from assms x d show ?thesis
    unfolding save_to_db_def by (auto simp: getitem_def split: if_splits)
qed

lemma save_to_db_frame:
  assumes "save_to_db s cs ks = Inr s'"
  shows "s' = s\<lparr>database := database s'\<rparr>"
  using save_to_db_Inr[OF assms] by (auto split: if_splits)

lemma save_checkpoint_Inr:
  assumes "save_checkpoint s = Inr s'"
  shows "\<exists>cs hit best. curr_state s = Inr cs \<and>
           cadence_hit (config s) (current_epoch s) = Inr hit \<and> is_best s = Some best \<and>
           (if hit then \<exists>s1. save_to_db s cs [''epoch'', ''results'', ''curr_best_acc''] = Inr s1
                               \<and> database s' = database s1
            else database s' = database s) \<and>
           s' = s\<lparr>database := database s',
                  save_dir_files :=
                     train_utils_save_checkpoint cs best
                       (if hit then Some (current_epoch s) else None)
                       (rank s) (use_tpu s) (save_dir_files s)\<rparr>"
proof -
  from assms obtain cs hit s1 best where
    cs: "curr_state s = Inr cs" and hit: "cadence_hit (config s) (current_epoch s) = Inr hit"
    and s1: "(if hit then save_to_db s cs [''epoch'', ''results'', ''curr_best_acc''] else Inr s) = Inr s1"
    and best: "is_best s1 = Some best"
    and s': "s' = s1\<lparr>save_dir_files :=
                 train_utils_save_checkpoint cs best
                   (if hit then Some (current_epoch s1) else None)
                   (rank s1) (use_tpu s1) (save_dir_files s1)\<rparr>"
    unfolding save_checkpoint_def by (clarsimp simp: ebind_eq_Inr)
  have "s1 = s\<lparr>database := database s1\<rparr>"
    using s1 save_to_db_frame by (cases hit) auto
  then obtain D where D: "s1 = s\<lparr>database := D\<rparr>" ..
  have s'': "s' = s\<lparr>database := D, save_dir_files :=
                 train_utils_save_checkpoint cs best
                   (if hit then Some (current_epoch s) else None)
                   (rank s) (use_tpu s) (save_dir_files s)\<rparr>"
    unfolding s' D by simp
  have b: "is_best s = Some best" using best unfolding D by simp
  have d: "database s' = D" unfolding s'' by simp
  have d1: "database s1 = D" unfolding D by simp
  have c: "(if hit then \<exists>s1. save_to_db s cs [''epoch'', ''results'', ''curr_best_acc''] = Inr s1
                               \<and> database s' = database s1
            else database s' = database s)"
  proof (cases hit)
    case True
    then show ?thesis using s1 d d1 by auto
  next
    case False
    then have "s1 = s" using s1 by simp
    then show ?thesis using False d d1 by simp
  qed
  have e: "s' = s\<lparr>database := database s',
                  save_dir_files :=
                     train_utils_save_checkpoint cs best
                       (if hit then Some (current_epoch s) else None)
                       (rank s) (use_tpu s) (save_dir_files s)\<rparr>"
    using s'' d by simp
  from cs hit b c e show ?thesis by blast
qed

lemma run_epoch_steps:
  assumes "run_epoch eng s i = Inr s'"
  shows "\<exists>s1 s2. train_one_epoch eng (s\<lparr>current_epoch := i\<rparr>) = Inr s1 \<and>
           validate eng s1 = Inr s2 \<and> save_checkpoint s2 = Inr s'"
  using assms unfolding run_epoch_def by (simp add: ebind_eq_Inr)

lemma train_one_epoch_frame:
  assumes "train_one_epoch eng s = Inr s'"
  shows "config s' = config s" "rank s' = rank s" "use_tpu s' = use_tpu s"
    "world_size s' = world_size s" "gpu_ids s' = gpu_ids s" "current_epoch s' = current_epoch s"
    "database s' = database s" "best_acc s' = best_acc s" "is_best s' = is_best s"
    "save_dir_files s' = save_dir_files s"
  using train_one_epoch_Inr[OF assms] by auto

lemma validate_frame:
  assumes "validate eng s = Inr s'"
  shows "config s' = config s" "rank s' = rank s" "use_tpu s' = use_tpu s"
    "world_size s' = world_size s" "gpu_ids s' = gpu_ids s" "current_epoch s' = current_epoch s"
    "database s' = database s" "model s' = model s" "optimizer s' = optimizer s"
    "save_dir_files s' = save_dir_files s"
  using validate_Inr[OF assms] by (auto dest!: validate_phase_Inr)

lemma save_checkpoint_frame:
  assumes "save_checkpoint s = Inr s'"
  shows "config s' = config s" "rank s' = rank s" "use_tpu s' = use_tpu s"
    "world_size s' = world_size s" "gpu_ids s' = gpu_ids s" "current_epoch s' = current_epoch s"
    "model s' = model s" "optimizer s' = optimizer s" "results s' = results s"
    "best_acc s' = best_acc s" "is_best s' = is_best s"
proof -
  from save_checkpoint_Inr[OF assms] obtain D Fs where "s' = s\<lparr>database := D, save_dir_files := Fs\<rparr>"
    by blast
  then show "config s' = config s" "rank s' = rank s" "use_tpu s' = use_tpu s"
    "world_size s' = world_size s" "gpu_ids s' = gpu_ids s" "current_epoch s' = current_epoch s"
    "model s' = model s" "optimizer s' = optimizer s" "results s' = results s"
    "best_acc s' = best_acc s" "is_best s' = is_best s"
    by simp_all
qed

lemma run_epoch_frame:
  assumes "run_epoch eng s i = Inr s'"
  shows "config s' = config s" "rank s' = rank s" "use_tpu s' = use_tpu s"
    "world_size s' = world_size s" "gpu_ids s' = gpu_ids s" "current_epoch s' = i"
proof -
  from run_epoch_steps[OF assms] obtain s1 s2 where
    1: "train_one_epoch eng (s\<lparr>current_epoch := i\<rparr>) = Inr s1" and
    2: "validate eng s1 = Inr s2" and 3: "save_checkpoint s2 = Inr s'" by blast
  show "config s' = config s" "rank s' = rank s" "use_tpu s' = use_tpu s"
    "world_size s' = world_size s" "gpu_ids s' = gpu_ids s" "current_epoch s' = i"
    using train_one_epoch_frame[OF 1] validate_frame[OF 2] save_checkpoint_frame[OF 3]
    by simp_all
qed


lemma take_extends:
  assumes "take (length xs) ys = xs" and "take (length ys) zs = ys"
  shows "take (length xs) zs = xs"
proof -
  have "length (take (length xs) ys) = length xs" using assms(1) by simp
  then have "length xs \<le> length ys" by simp
  then have "take (length xs) zs = take (length xs) (take (length ys) zs)"
    by (simp add: min_def)
  then show ?thesis using assms by simp
qed

lemma series_extends_refl: "series_extends x x 0 0"
  by (simp add: series_extends_def)

lemma series_extends_trans:
  assumes "series_extends x y n k" and "series_extends y z n' k'"
  shows "series_extends x z (n + n') (k + k')"
  using assms unfolding series_extends_def
  by (auto intro: take_extends)

lemma history_extends_refl: "history_extends res res 0 0"
  by (simp add: history_extends_def series_extends_refl)

lemma history_extends_trans:
  assumes "history_extends x y n k" and "history_extends y z n' k'"
  shows "history_extends x z (n + n') (k + k')"
  using assms unfolding history_extends_def
  by (auto intro: series_extends_trans)

lemma history_extends_append_train: "history_extends res (append_train res a b c) 1 0"
  by (simp add: history_extends_def series_extends_def append_train_def)

lemma history_extends_append_val: "history_extends res (append_val res a b c) 0 1"
  by (simp add: history_extends_def series_extends_def append_val_def)

lemma curr_state_Inr:
  assumes "curr_state s = Inr cs"
  shows "\<exists>res best. results s = Some res \<and> best_acc s = Some best \<and>
     cs = [''epoch'' \<mapsto> Epoch (current_epoch s), ''state_dict'' \<mapsto> StateDict (model s),
            ''optimizer'' \<mapsto> OptimizerState (optimizer s), ''results'' \<mapsto> Results res,
            ''curr_best_acc'' \<mapsto> BestAcc best]"
  using assms unfolding curr_state_def by (clarsimp simp: ebind_eq_Inr)

lemma run_epoch_results:
  assumes run: "run_epoch eng s i = Inr s'" and hit: "cadence_hit (config s) i = Inr hit"
  shows "\<exists>res res'. results s = Some res \<and> results s' = Some res' \<and>
           history_extends res res' 1 (if hit then 1 else 0)"
proof -
  from run_epoch_steps[OF run] obtain s1 s2 where
    1: "train_one_epoch eng (s\<lparr>current_epoch := i\<rparr>) = Inr s1" and
    2: "validate eng s1 = Inr s2" and 3: "save_checkpoint s2 = Inr s'" by blast
  from train_one_epoch_Inr[OF 1] obtain res a b c where
    res: "results s = Some res" and r1: "results s1 = Some (append_train res a b c)"
    by auto
  have c1: "config s1 = config s" "current_epoch s1 = i"
    using train_one_epoch_frame[OF 1] by simp_all
  have h1: "history_extends res (append_train res a b c) 1 0"
    by (rule history_extends_append_train)
  have r': "results s' = results s2" using save_checkpoint_frame[OF 3] by simp
  show ?thesis
  proof (cases hit)
    case True
    with validate_Inr[OF 2] hit c1 have "validate_phase eng s1 = Inr s2" by auto
    from validate_phase_Inr[OF this] r1 obtain va vb vc where
      "results s2 = Some (append_val (append_train res a b c) va vb vc)" by auto
    moreover have "history_extends res (append_val (append_train res a b c) va vb vc) (1 + 0) (0 + 1)"
      by (rule history_extends_trans[OF h1 history_extends_append_val])
    ultimately show ?thesis using res r' True by simp
  next
    case False
    with validate_Inr[OF 2] hit c1 have "s2 = s1" by auto
    then show ?thesis using res r' r1 h1 False by simp
  qed
qed

lemma run_epoch_best:
  assumes run: "run_epoch eng s i = Inr s'"
  shows "\<exists>b b'. best_acc s = Some b \<and> best_acc s' = Some b' \<and> b \<le> b'"
proof -
  from run_epoch_steps[OF run] obtain s1 s2 where
    1: "train_one_epoch eng (s\<lparr>current_epoch := i\<rparr>) = Inr s1" and
    2: "validate eng s1 = Inr s2" and 3: "save_checkpoint s2 = Inr s'" by blast
  have b1: "best_acc s1 = best_acc s" using train_one_epoch_frame[OF 1] by simp
  have b': "best_acc s' = best_acc s2" using save_checkpoint_frame[OF 3] by simp
  from save_checkpoint_Inr[OF 3] obtain cs where "curr_state s2 = Inr cs" by blast
  from curr_state_Inr[OF this] obtain b2 where b2: "best_acc s2 = Some b2" by blast
  from validate_Inr[OF 2] show ?thesis
  proof
    assume "cadence_hit (config s1) (current_epoch s1) = Inr True \<and> validate_phase eng s1 = Inr s2"
    then have "validate_phase eng s1 = Inr s2" by simp
    from validate_phase_Inr[OF this] obtain best vb where
      "best_acc s1 = Some best" "best_acc s2 = Some (max vb best)" by auto
    then show ?thesis using b1 b' by auto
  next
    assume "cadence_hit (config s1) (current_epoch s1) = Inr False \<and> s2 = s1"
    then show ?thesis using b1 b' b2 by auto
  qed
qed

lemma cadence_hit_eq:
  assumes "config_int cfg ''save_freq'' = Inr F" and "F \<noteq> 0"
    and "config_int cfg ''num_epochs'' = Inr N"
  shows "cadence_hit cfg e = Inr (e mod F = 0 \<or> e + 1 = N)"
  using assms by (simp add: cadence_hit_def)

lemma append_val_neq: "append_val res a b c \<noteq> res"
proof
  assume "append_val res a b c = res"
  then have "val_series (losses (append_val res a b c)) = val_series (losses res)"
    by simp
  then show False by (simp add: append_val_def)
qed

lemma validate_phase_changes: "validate_phase eng s \<noteq> Inr s"
proof
  assume "validate_phase eng s = Inr s"
  from validate_phase_Inr[OF this] obtain res a b c where
    "results s = Some res" "results s = Some (append_val res a b c)"
    by (metis trainer.select_convs(10) trainer.surjective trainer.update_convs(10)
        trainer.update_convs(11) trainer.update_convs(12))
  then show False using append_val_neq by (metis option.inject)
qed

lemma demo_config_ints:
  "config_int (demo_config F N) ''save_freq'' = Inr F"
  "config_int (demo_config F N) ''num_epochs'' = Inr N"
  by (simp_all add: demo_config_def config_int_def)

lemmas demo_defs = demo_trainer_def demo_engine_def demo_config_def shard_def empty_results_def
  run_epoch_def train_one_epoch_def train_loop_def progress_print_def validate_def validate_phase_def save_checkpoint_def
  save_to_db_def curr_state_def cadence_hit_def config_int_def check_key_def getattr_def getitem_def
  epoch_averages_def update_meters_def rep_metrics_def reduce_metric_def meter_update_def fresh_meters_def
  AverageMeter_def check_best_accuracy_def train_utils_save_checkpoint_def append_train_def append_val_def
  train_def close_db_def

lemma train_epochs_config:
  assumes "train_epochs eng s es = Inr s'"
  shows "config s' = config s \<and> rank s' = rank s \<and> use_tpu s' = use_tpu s \<and>
         world_size s' = world_size s \<and> gpu_ids s' = gpu_ids s"
  using assms
proof (induction es arbitrary: s)
  case Nil
  then show ?case by simp
next
  case (Cons i es)
  then obtain s1 where 1: "run_epoch eng s i = Inr s1" and 2: "train_epochs eng s1 es = Inr s'"
    by (auto split: sum.splits)
  show ?case using Cons.IH[OF 2] run_epoch_frame[OF 1] by simp
qed

lemma select_keys_curr_state:
  assumes "cs = [''epoch'' \<mapsto> Epoch e, ''state_dict'' \<mapsto> StateDict m,
            ''optimizer'' \<mapsto> OptimizerState opt, ''results'' \<mapsto> Results res,
            ''curr_best_acc'' \<mapsto> BestAcc best]"
  shows "select_keys cs [''epoch'', ''results'', ''curr_best_acc''] =
           Inr [''curr_best_acc'' \<mapsto> BestAcc best, ''results'' \<mapsto> Results res,
                ''epoch'' \<mapsto> Epoch e]"
  unfolding assms by (simp add: getitem_def)

lemma save_checkpoint_database:
  assumes "save_checkpoint s = Inr s'"
  shows "\<exists>hit res best. cadence_hit (config s) (current_epoch s) = Inr hit \<and>
           results s = Some res \<and> best_acc s = Some best \<and>
           (if hit \<and> rank s = 0 \<and> database s \<noteq> None
            then \<exists>x. config s ''exp_id'' = Some x \<and>
                   database s' = map_option (\<lambda>db. db\<lparr>saved := saved db @
                      [[''exp_id'' \<mapsto> ExpId x, ''curr_best_acc'' \<mapsto> BestAcc best,
                        ''results'' \<mapsto> Results res, ''epoch'' \<mapsto> Epoch (current_epoch s)]]\<rparr>)
                      (database s)
            else database s' = database s)"
proof -
  from save_checkpoint_Inr[OF assms] obtain cs hit where
    cs: "curr_state s = Inr cs" and hit: "cadence_hit (config s) (current_epoch s) = Inr hit"
    and db: "if hit then \<exists>s1. save_to_db s cs [''epoch'', ''results'', ''curr_best_acc''] = Inr s1
                               \<and> database s' = database s1
            else database s' = database s"
    by blast
  from curr_state_Inr[OF cs] obtain res best where
    res: "results s = Some res" and best: "best_acc s = Some best" and
    cs_eq: "cs = [''epoch'' \<mapsto> Epoch (current_epoch s), ''state_dict'' \<mapsto> StateDict (model s),
            ''optimizer'' \<mapsto> OptimizerState (optimizer s), ''results'' \<mapsto> Results res,
            ''curr_best_acc'' \<mapsto> BestAcc best]"
    by blast
  have goal: "if hit \<and> rank s = 0 \<and> database s \<noteq> None
            then \<exists>x. config s ''exp_id'' = Some x \<and>
                   database s' = map_option (\<lambda>db. db\<lparr>saved := saved db @
                      [[''exp_id'' \<mapsto> ExpId x, ''curr_best_acc'' \<mapsto> BestAcc best,
                        ''results'' \<mapsto> Results res, ''epoch'' \<mapsto> Epoch (current_epoch s)]]\<rparr>)
                      (database s)
            else database s' = database s"
  proof (cases "hit \<and> rank s = 0 \<and> database s \<noteq> None")
    case False
    have "database s' = database s"
    proof (cases hit)
      case False
      then show ?thesis using db by simp
    next
      case True
      with db obtain s1 where s1: "save_to_db s cs [''epoch'', ''results'', ''curr_best_acc''] = Inr s1"
        and d: "database s' = database s1" by auto
      from True False have nc: "\<not> (rank s = 0 \<and> database s \<noteq> None)" by blast
      from save_to_db_Inr[OF s1] have "s1 = s" unfolding if_not_P[OF nc] by blast
      then show ?thesis using d by simp
    qed
    then show ?thesis unfolding if_not_P[OF False] .
  next
    case True
    then have h: hit and pc: "rank s = 0 \<and> database s \<noteq> None" by blast+
    from h db obtain s1 where s1: "save_to_db s cs [''epoch'', ''results'', ''curr_best_acc''] = Inr s1"
      and d: "database s' = database s1" by auto
    from save_to_db_Inr[OF s1] obtain x d' where x: "config s ''exp_id'' = Some x"
      and sel: "select_keys cs [''epoch'', ''results'', ''curr_best_acc''] = Inr d'"
      and s1_eq: "s1 = s\<lparr>database := map_option
                         (\<lambda>db. db\<lparr>saved := saved db @ [[''exp_id'' \<mapsto> ExpId x] ++ d']\<rparr>) (database s)\<rparr>"
      unfolding if_P[OF pc] by blast
    have d'_eq: "d' = [''curr_best_acc'' \<mapsto> BestAcc best, ''results'' \<mapsto> Results res,
                ''epoch'' \<mapsto> Epoch (current_epoch s)]"
      using sel select_keys_curr_state[OF cs_eq] by simp
    have rec: "[''exp_id'' \<mapsto> ExpId x] ++ d' =
        [''exp_id'' \<mapsto> ExpId x, ''curr_best_acc'' \<mapsto> BestAcc best,
         ''results'' \<mapsto> Results res, ''epoch'' \<mapsto> Epoch (current_epoch s)]"
      unfolding d'_eq by simp
    have "database s1 = map_option
             (\<lambda>db. db\<lparr>saved := saved db @ [[''exp_id'' \<mapsto> ExpId x] ++ d']\<rparr>) (database s)"
      unfolding s1_eq by simp
    then have "database s' = map_option (\<lambda>db. db\<lparr>saved := saved db @
                      [[''exp_id'' \<mapsto> ExpId x, ''curr_best_acc'' \<mapsto> BestAcc best,
                        ''results'' \<mapsto> Results res, ''epoch'' \<mapsto> Epoch (current_epoch s)]]\<rparr>)
                      (database s)"
      using d unfolding rec by simp
    with x show ?thesis unfolding if_P[OF True] by blast
  qed
  from hit res best goal show ?thesis by blast
qed

lemma run_epoch_database:
  assumes run: "run_epoch eng s i = Inr s'" and hit: "cadence_hit (config s) i = Inr hit"
    and rk: "rank s = 0" and db: "database s = Some db"
  shows "\<exists>db'. database s' = Some db' \<and> synced db' = synced db \<and>
           length (saved db') = length (saved db) + (if hit then 1 else 0)"
proof -
  from run_epoch_steps[OF run] obtain s1 s2 where
    1: "train_one_epoch eng (s\<lparr>current_epoch := i\<rparr>) = Inr s1" and
    2: "validate eng s1 = Inr s2" and 3: "save_checkpoint s2 = Inr s'" by blast
  have f: "config s2 = config s" "current_epoch s2 = i" "rank s2 = 0" "database s2 = Some db"
    using train_one_epoch_frame[OF 1] validate_frame[OF 2] rk db by simp_all
  from save_checkpoint_database[OF 3] hit f show ?thesis
    by (cases hit) auto
qed

lemma train_epochs_database:
  assumes "train_epochs eng s es = Inr s'" and "rank s = 0" and "database s = Some db"
    and "config_int (config s) ''save_freq'' = Inr F" and "F \<noteq> 0"
    and "config_int (config s) ''num_epochs'' = Inr N"
  shows "\<exists>db'. database s' = Some db' \<and> synced db' = synced db \<and>
           length (saved db') = length (saved db) +
             length (filter (\<lambda>e. e mod F = 0 \<or> e + 1 = N) es)"
  using assms
proof (induction es arbitrary: s db)
  case Nil
  then show ?case by simp
next
  case (Cons i es)
  from Cons.prems(1) obtain s1 where 1: "run_epoch eng s i = Inr s1"
    and 2: "train_epochs eng s1 es = Inr s'"
    by (auto split: sum.splits)
  have c: "config s1 = config s" "rank s1 = 0" using run_epoch_frame[OF 1] Cons.prems by simp_all
  have hit: "cadence_hit (config s) i = Inr (i mod F = 0 \<or> i + 1 = N)"
    using Cons.prems by (simp add: cadence_hit_eq)
  from run_epoch_database[OF 1 hit Cons.prems(2,3)] obtain db1 where
    d1: "database s1 = Some db1" "synced db1 = synced db"
      "length (saved db1) = length (saved db) + (if i mod F = 0 \<or> i + 1 = N then 1 else 0)"
    by blast
  from Cons.IH[OF 2 c(2) d1(1)] Cons.prems c obtain db' where
    "database s' = Some db'" "synced db' = synced db1"
    "length (saved db') = length (saved db1) + length (filter (\<lambda>e. e mod F = 0 \<or> e + 1 = N) es)"
    by auto
  then show ?case using d1 by (cases "i mod F = 0 \<or> i + 1 = N") auto
qed

lemma div_step:
  fixes m F :: int
  assumes "0 < F"
  shows "(m + 1) div F = m div F + (if (m + 1) mod F = 0 then 1 else 0)"
proof (cases "(m + 1) mod F = 0")
  case True
  then obtain q where q: "m + 1 = F * q" by (metis mod_eq_0_iff_dvd dvd_def)
  have "m = F * (q - 1) + (F - 1)" using q by (simp add: algebra_simps)
  then have "m div F = q - 1"
    using assms by (intro int_div_pos_eq[where r="F - 1"]) auto
  moreover have "(m + 1) div F = q" using q assms by simp
  ultimately show ?thesis using True by simp
next
  case False
  define r where "r = (m + 1) mod F"
  define q where "q = (m + 1) div F"
  have "0 \<le> r" unfolding r_def using assms by (rule pos_mod_sign)
  moreover have "r \<noteq> 0" using False unfolding r_def by simp
  ultimately have r0: "0 < r" by simp
  have rF: "r < F" unfolding r_def using assms by (rule pos_mod_bound)
  have "m + 1 = F * q + r" unfolding q_def r_def by simp
  then have "m = F * q + (r - 1)" by simp
  then have "m div F = q"
    using assms r0 rF by (intro int_div_pos_eq[where r="r - 1"]) auto
  then show ?thesis using False unfolding q_def by simp
qed

lemma multiples_count:
  fixes F :: int
  assumes "0 < F"
  shows "length (filter (\<lambda>e. e mod F = 0) [0..int n - 1]) = nat ((int n - 1) div F + 1)"
proof (induction n)
  case 0
  have "(- 1) div F = - 1" using assms by (simp add: div_eq_minus1)
  then show ?case by simp
next
  case (Suc n)
  define k where "k = (int n - 1) div F"
  have u: "[0..int n] = [0..int n - 1] @ [int n]"
    using upto_rec2[of 0 "int n"] by simp
  have d: "(int n) div F = k + (if int n mod F = 0 then 1 else 0)"
    unfolding k_def using div_step[OF assms, of "int n - 1"] by simp
  have "(- 1) div F \<le> (int n - 1) div F"
    using assms by (intro zdiv_mono1) auto
  moreover have "(- 1) div F = - 1" using assms by (simp add: div_eq_minus1)
  ultimately have nn: "0 \<le> k + 1" unfolding k_def by simp
  have s: "int (Suc n) - 1 = int n" by simp
  have ih: "length (filter (\<lambda>e. e mod F = 0) [0..int n - 1]) = nat (k + 1)"
    using Suc unfolding k_def .
  have "length (filter (\<lambda>e. e mod F = 0) [0..int n]) =
          nat (k + 1) + (if int n mod F = 0 then 1 else 0)"
    unfolding u using ih by simp
  also have "\<dots> = nat (int n div F + 1)"
    unfolding d using nn by (cases "int n mod F = 0") (simp_all add: nat_add_distrib)
  finally show ?case unfolding s .
qed

lemma cadence_count:
  fixes F N :: int
  assumes "0 < F" and "0 < N"
  shows "length (filter (\<lambda>e. e mod F = 0 \<or> e + 1 = N) [0..N - 1]) =
           nat ((N - 1) div F + 1 + (if (N - 1) mod F = 0 then 0 else 1))"
proof -
  define n where "n = nat (N - 1)"
  define k where "k = (int n - 1) div F"
  have N: "N - 1 = int n" using assms unfolding n_def by simp
  have u: "[0..int n] = [0..int n - 1] @ [int n]" using upto_rec2[of 0 "int n"] by simp
  have "\<forall>e \<in> set [0..int n - 1]. e + 1 \<noteq> N" using N by auto
  then have f: "filter (\<lambda>e. e mod F = 0 \<or> e + 1 = N) [0..int n - 1] =
        filter (\<lambda>e. e mod F = 0) [0..int n - 1]"
    by (intro filter_cong) auto
  have last: "int n + 1 = N" using N by simp
  have l: "length (filter (\<lambda>e. e mod F = 0 \<or> e + 1 = N) [0..N - 1]) = nat (k + 1) + 1"
    unfolding N u k_def using f multiples_count[OF assms(1), of n] last by simp
  have d: "(int n) div F = k + (if int n mod F = 0 then 1 else 0)"
    unfolding k_def using div_step[OF assms(1), of "int n - 1"] by simp
  have "(- 1) div F \<le> (int n - 1) div F"
    using assms by (intro zdiv_mono1) auto
  moreover have "(- 1) div F = - 1" using assms by (simp add: div_eq_minus1)
  ultimately have nn: "0 \<le> k + 1" unfolding k_def by simp
  have "nat (k + 1) + 1 = nat (int n div F + 1 + (if int n mod F = 0 then 0 else 1))"
    unfolding d using nn by (cases "int n mod F = 0") (simp_all add: nat_add_distrib)
  then show ?thesis unfolding l unfolding N .
qed

lemma train_epochs_append:
  "train_epochs eng s (xs @ ys) =
     (case train_epochs eng s xs of Inl e \<Rightarrow> Inl e | Inr s1 \<Rightarrow> train_epochs eng s1 ys)"
  by (induction xs arbitrary: s) (auto split: sum.splits)

lemma save_checkpoint_snapshot:
  assumes "save_checkpoint s = Inr s'" and "rank s = 0"
  shows "\<exists>cs. save_dir_files s' Snapshot = Some cs \<and> cs ''epoch'' = Some (Epoch (current_epoch s))"
proof -
  from save_checkpoint_Inr[OF assms(1)] obtain cs hit best D where
    cs: "curr_state s = Inr cs" and
    s': "s' = s\<lparr>database := D,
                  save_dir_files :=
                     train_utils_save_checkpoint cs best
                       (if hit then Some (current_epoch s) else None)
                       (rank s) (use_tpu s) (save_dir_files s)\<rparr>"
    by blast
  have e: "cs ''epoch'' = Some (Epoch (current_epoch s))"
    using curr_state_Inr[OF cs] by auto
  have "save_dir_files s' Snapshot = Some cs"
    unfolding s' using assms(2)
    by (simp add: train_utils_save_checkpoint_def Let_def split: option.splits)
  then show ?thesis using e by blast
qed

lemma run_epoch_snapshot:
  assumes run: "run_epoch eng s i = Inr s'" and rk: "rank s = 0"
  shows "\<exists>cs. save_dir_files s' Snapshot = Some cs \<and> cs ''epoch'' = Some (Epoch i)"
proof -
  from run_epoch_steps[OF run] obtain s1 s2 where
    1: "train_one_epoch eng (s\<lparr>current_epoch := i\<rparr>) = Inr s1" and
    2: "validate eng s1 = Inr s2" and 3: "save_checkpoint s2 = Inr s'" by blast
  have f: "current_epoch s2 = i" "rank s2 = 0"
    using train_one_epoch_frame[OF 1] validate_frame[OF 2] rk by simp_all
  from save_checkpoint_snapshot[OF 3 f(2)] f(1) show ?thesis by simp
qed

lemma train_Inr:
  assumes "train eng s = Inr s'"
  shows "\<exists>N s1. config_int (config s) ''num_epochs'' = Inr N \<and>
           train_epochs eng s [current_epoch s..N - 1] = Inr s1 \<and> s' = close_db s1"
  using assms unfolding train_def by (clarsimp simp: ebind_eq_Inr)

lemma close_db_saved:
  assumes "database s = Some db"
  shows "\<exists>db'. database (close_db s) = Some db' \<and> saved db' = saved db"
  using assms by (simp add: close_db_def)

lemma demo_train_5_3:
  "map_sum id (\<lambda>s. map_option (\<lambda>db. length (saved db)) (database s))
     (train demo_engine (demo_trainer 3 5)) = Inr (Some 3)"
  by (simp add: demo_defs Let_def upto_rec1)


lemma as_epoch_Inr [simp]: "as_epoch v = Inr e \<longleftrightarrow> v = Epoch e"
  by (cases v) auto

lemma as_results_Inr [simp]: "as_results v = Inr r \<longleftrightarrow> v = Results r"
  by (cases v) auto

lemma as_state_dict_Inr [simp]: "as_state_dict v = Inr m \<longleftrightarrow> v = StateDict m"
  by (cases v) auto

lemma as_optimizer_Inr [simp]: "as_optimizer v = Inr opt \<longleftrightarrow> v = OptimizerState opt"
  by (cases v) auto

lemma as_best_acc_Inr [simp]: "as_best_acc v = Inr b \<longleftrightarrow> v = BestAcc b"
  by (cases v) auto

lemma isfile_Inr [simp]: "isfile fs v = Inr b \<longleftrightarrow> (\<exists>p. v = PyStr p \<and> b = (fs p \<noteq> None))"
  by (cases v) auto

lemma torch_load_Inr [simp]: "torch_load fs v = Inr f \<longleftrightarrow> (\<exists>p. v = PyStr p \<and> fs p = Some f)"
  by (cases v) (auto split: option.splits)

lemma load_checkpoint_Inr:
  assumes "load_checkpoint fs t = Inr t'"
  shows "\<exists>p cpt e res m opt b. config t ''resume_checkpoint'' = Some (PyStr p) \<and>
           fs p = Some cpt \<and> cpt ''epoch'' = Some (Epoch e) \<and> cpt ''results'' = Some (Results res) \<and>
           cpt ''state_dict'' = Some (StateDict m) \<and> cpt ''optimizer'' = Some (OptimizerState opt) \<and>
           cpt ''curr_best_acc'' = Some (BestAcc b) \<and> results t = None \<and>
           t' = t\<lparr>current_epoch := e + 1, results := Some res, model := m, optimizer := opt,
                  best_acc := Some b\<rparr>"
proof -
  from assms obtain v where v: "config t ''resume_checkpoint'' = Some v"
    unfolding load_checkpoint_def by (clarsimp simp: ebind_eq_Inr)
  from assms v obtain p where p: "v = PyStr p" and f: "fs p \<noteq> None"
    unfolding load_checkpoint_def
    by (clarsimp simp: ebind_eq_Inr check_key_def split: if_splits)
  from assms v p f obtain cpt where cpt: "fs p = Some cpt"
    by auto
  have tl: "(if use_tpu t then torch_load fs (PyStr p)
            else ebind (getattr (gpu_ids t)) (\<lambda>g.
                 ebind (py_len g) (\<lambda>n.
                 ebind (py_assert (n = 1)) (\<lambda>_. torch_load fs (PyStr p))))) = Inr cpt"
    using assms v p cpt unfolding load_checkpoint_def
    by (auto simp: ebind_eq_Inr check_key_def split: if_splits)
  from assms show ?thesis
    unfolding load_checkpoint_def
    using v p cpt tl
    by (clarsimp simp: ebind_eq_Inr check_key_def)
qed

lemma load_checkpoint_ok:
  assumes "config t ''resume_checkpoint'' = Some (PyStr p)" and "fs p = Some cpt"
    and "use_tpu t \<or> (\<exists>g. gpu_ids t = Some g \<and> py_len g = Inr 1)"
    and "cpt ''epoch'' = Some (Epoch e)" and "cpt ''results'' = Some (Results res)"
    and "cpt ''state_dict'' = Some (StateDict m)" and "cpt ''optimizer'' = Some (OptimizerState opt)"
    and "cpt ''curr_best_acc'' = Some (BestAcc b)" and "results t = None"
  shows "load_checkpoint fs t =
           Inr (t\<lparr>current_epoch := e + 1, results := Some res, model := m, optimizer := opt,
                  best_acc := Some b\<rparr>)"
proof -
  have tl: "(if use_tpu t then torch_load fs (PyStr p)
            else ebind (getattr (gpu_ids t)) (\<lambda>g.
                 ebind (py_len g) (\<lambda>n.
                 ebind (py_assert (n = 1)) (\<lambda>_. torch_load fs (PyStr p))))) = Inr cpt"
    using assms(2,3) by (auto simp: getattr_def)
  show ?thesis
    unfolding load_checkpoint_def using assms(1,2,4-9)
    by (simp add: check_key_def getitem_def tl)
qed

lemma train_epochs_best:
  assumes "train_epochs eng s es = Inr s'" and "best_acc s = Some b"
  shows "\<exists>b'. best_acc s' = Some b' \<and> b \<le> b'"
  using assms
proof (induction es arbitrary: s b)
  case Nil
  then show ?case by simp
next
  case (Cons i es)
  from Cons.prems(1) obtain s1 where 1: "run_epoch eng s i = Inr s1"
    and 2: "train_epochs eng s1 es = Inr s'"
    by (auto split: sum.splits)
  from run_epoch_best[OF 1] Cons.prems(2) obtain b1 where b1: "best_acc s1 = Some b1" "b \<le> b1"
    by auto
  from Cons.IH[OF 2 b1(1)] b1(2) show ?case by auto
qed

lemma Trainer_init_no_resume:
  assumes "Trainer_init env cfg = Inr s" and "cfg ''resume_checkpoint'' = Some PyNone"
  shows "results s = None \<and> best_acc s = None \<and> is_best s = None \<and> current_epoch s = 0
         \<and> config s = cfg"
  using assms unfolding Trainer_init_def
  by (clarsimp simp: ebind_eq_Inr Let_def)

lemma get_imagenet_loaders_fails: "get_imagenet_loaders env \<noteq> Inr u"
  by (auto simp: get_imagenet_loaders_def ebind_eq_Inr)

lemma supervised_initialize_dataloader_fails:
  "supervised_initialize_dataloader env cfg world \<noteq> Inr u"
  by (auto simp: supervised_initialize_dataloader_def wrap_dataloaders_def ebind_eq_Inr
      get_imagenet_loaders_fails)

lemma Trainer_init_dataloader:
  assumes "Trainer_init env cfg = Inr s"
  shows "\<exists>world. initialize_dataloader env cfg world = Inr ()"
  using assms unfolding Trainer_init_def
  by (clarsimp simp: ebind_eq_Inr) blast

lemma SupervisedImageNetTrainer_init_fails:
  "\<exists>e. SupervisedImageNetTrainer_init env cfg = Inl e"
proof (cases "SupervisedImageNetTrainer_init env cfg")
  case (Inl e)
  then show ?thesis by blast
next
  case (Inr s)
  then obtain s0 where
    "Trainer_init (env\<lparr>initialize_dataloader := supervised_initialize_dataloader env\<rparr>) cfg = Inr s0"
    unfolding SupervisedImageNetTrainer_init_def by (auto simp: ebind_eq_Inr)
  from Trainer_init_dataloader[OF this] supervised_initialize_dataloader_fails
  show ?thesis by auto
qed

lemma demo_base_init: "Trainer_init demo_env (demo_config F N) = Inr (demo_base F N)"
  by (simp add: Trainer_init_def set_device_def connect_db_def
      demo_env_def demo_config_def demo_base_def check_key_def getitem_def Let_def)

lemma demo_attributes: "supervised_init_attributes (demo_base F N) = demo_trainer F N"
  by (simp add: supervised_init_attributes_def demo_base_def demo_trainer_def)

lemma demo_load:
  "load_checkpoint demo_files (demo_fresh F N) =
     Inr ((demo_fresh F N)\<lparr>current_epoch := 5, results := Some empty_results, model := 5,
            optimizer := 5, best_acc := Some 50\<rparr>)"
proof -
  have "load_checkpoint demo_files (demo_fresh F N) =
     Inr ((demo_fresh F N)\<lparr>current_epoch := 4 + 1, results := Some empty_results, model := 5,
            optimizer := 5, best_acc := Some 50\<rparr>)"
    by (rule load_checkpoint_ok[where p="''ckpt.pt''" and cpt=demo_checkpoint])
      (simp_all add: demo_fresh_def demo_resume_config_def demo_files_def demo_checkpoint_def)
  then show ?thesis by simp
qed

lemma demo_resume_init:
  "Trainer_init demo_resume_env (demo_resume_config F N) =
     Inr ((demo_fresh F N)\<lparr>current_epoch := 5, results := Some empty_results, model := 5,
            optimizer := 5, best_acc := Some 50\<rparr>)"
proof -
  have "Trainer_init demo_resume_env (demo_resume_config F N) =
          load_checkpoint demo_files (demo_fresh F N)"
    by (simp add: Trainer_init_def set_device_def connect_db_def demo_resume_env_def
        demo_env_def demo_resume_config_def demo_config_def demo_fresh_def check_key_def
        getitem_def Let_def)
  then show ?thesis using demo_load by simp
qed

lemma demo_curr_state: "curr_state demo_saved = Inr demo_checkpoint"
  by (simp add: curr_state_def demo_saved_def demo_trainer_def demo_checkpoint_def getattr_def)

lemma load_gpu_ready:
  assumes "use_tpu t \<or> (\<exists>g. gpu_ids t = Some g \<and> py_len g = Inr 1)" and "fs p = Some cpt"
  shows "(if use_tpu t then torch_load fs (PyStr p)
          else ebind (getattr (gpu_ids t)) (\<lambda>g.
               ebind (py_len g) (\<lambda>n.
               ebind (py_assert (n = 1)) (\<lambda>_. torch_load fs (PyStr p))))) = Inr cpt"
  using assms by (auto simp: getattr_def)

lemma load_checkpoint_not_found:
  assumes "config t ''resume_checkpoint'' = Some (PyStr p)" and "fs p = None"
  shows "load_checkpoint fs t = Inl ValueError"
  unfolding load_checkpoint_def using assms by (simp add: check_key_def getitem_def)

lemma load_checkpoint_missing_field:
  assumes "config t ''resume_checkpoint'' = Some (PyStr p)" and "fs p = Some cpt"
    and "use_tpu t \<or> (\<exists>g. gpu_ids t = Some g \<and> py_len g = Inr 1)"
    and "cpt ''epoch'' = None \<or> cpt ''results'' = None \<or> cpt ''state_dict'' = None \<or>
         cpt ''optimizer'' = None \<or> cpt ''curr_best_acc'' = None"
  shows "load_checkpoint fs t = Inl AssertionError"
proof -
  note tl = load_gpu_ready[where fs=fs and p=p, OF assms(3,2)]
  have py [simp]: "ebind (py_assert c) k = (if c then k () else Inl AssertionError)"
    for c and k :: "unit \<Rightarrow> error + 'z"
    by (simp add: py_assert_def)
  show ?thesis
    unfolding load_checkpoint_def using assms(1,2) assms(4)
    by (elim disjE) (simp_all add: check_key_def getitem_def tl)
qed

lemma save_to_db_frame_rank:
  assumes "save_to_db s cs ks = Inr s1"
  shows "s1 = s\<lparr>database := database s1\<rparr> \<and> (rank s \<noteq> 0 \<longrightarrow> s1 = s)"
  using save_to_db_Inr[OF assms] by (auto split: if_splits)

lemma demo_save_0:
  "map_sum id (\<lambda>s. map_option (\<lambda>db. length (saved db)) (database s))
     (save_checkpoint (demo_trainer 3 5)) = Inr (Some 1)"
  by (simp add: demo_defs Let_def)

lemma connect_db_Inr:
  assumes "connect_db env cfg = Inr db"
  shows "cfg ''db_name'' \<noteq> None \<and> cfg ''coll_name'' \<noteq> None \<and> cfg ''exp_id'' \<noteq> None \<and>
         cfg ''db_name'' \<noteq> Some PyNone \<and> cfg ''coll_name'' \<noteq> Some PyNone \<and>
         cfg ''exp_id'' \<noteq> Some PyNone \<and>
         (cfg ''use_mongodb'' = Some (PyBool False) \<longrightarrow> db = None)"
  using assms unfolding connect_db_def
  by (clarsimp simp: ebind_eq_Inr split: if_splits)

lemma load_checkpoint_database:
  assumes "load_checkpoint fs t = Inr t'"
  shows "database t' = database t"
  using load_checkpoint_Inr[OF assms] by auto

lemma Trainer_init_database:
  assumes "Trainer_init env cfg = Inr s"
  shows "\<exists>db. connect_db env cfg = Inr db \<and> database s = db"
proof -
  from assms obtain db tpu rk world gids m opt resume where
    c: "connect_db env cfg = Inr db" and
    r: "(let s0 = \<lparr>config = cfg, use_tpu = tpu, rank = rk, world_size = world, gpu_ids = gids,
                model = m, optimizer = opt, database = db, current_epoch = 0,
                results = None, best_acc = None, is_best = None,
                save_dir_files = existing_files env\<rparr>
       in if resume \<noteq> PyNone then
            (if tpu then
               ebind (download_file_from_bucket env resume rk) (\<lambda>p.
                 load_checkpoint (checkpoint_files env)
                   (s0\<lparr>config := cfg(''resume_checkpoint'' \<mapsto> p)\<rparr>))
             else load_checkpoint (checkpoint_files env) s0)
          else Inr s0) = Inr s"
    unfolding Trainer_init_def by (clarsimp simp: ebind_eq_Inr)
  have "database s = db"
    using r unfolding Let_def
    by (auto simp: ebind_eq_Inr split: if_splits dest!: load_checkpoint_database)
  with c show ?thesis by blast
qed

lemma run_epoch_no_database:
  assumes run: "run_epoch eng s i = Inr s'" and db: "database s = None"
  shows "database s' = None"
proof -
  from run_epoch_steps[OF run] obtain s1 s2 where
    1: "train_one_epoch eng (s\<lparr>current_epoch := i\<rparr>) = Inr s1" and
    2: "validate eng s1 = Inr s2" and 3: "save_checkpoint s2 = Inr s'" by blast
  have f: "database s2 = None"
    using train_one_epoch_frame[OF 1] validate_frame[OF 2] db by simp
  from save_checkpoint_database[OF 3] f show ?thesis by auto
qed

lemma train_epochs_no_database:
  assumes "train_epochs eng s es = Inr s'" and "database s = None"
  shows "database s' = None"
  using assms
proof (induction es arbitrary: s)
  case Nil
  then show ?case by simp
next
  case (Cons i es)
  from Cons.prems(1) obtain s1 where 1: "run_epoch eng s i = Inr s1"
    and 2: "train_epochs eng s1 es = Inr s'"
    by (auto split: sum.splits)
  from Cons.IH[OF 2 run_epoch_no_database[OF 1 Cons.prems(2)]] show ?case .
qed

lemma demo_init_off:
  "Trainer_init demo_env demo_config_off =
     Inr \<lparr>config = demo_config_off, use_tpu = False, rank = 0, world_size = 1,
          gpu_ids = Some (PyList [PyInt 0]), model = 0, optimizer = 0,
          database = None, current_epoch = 0, results = None, best_acc = None, is_best = None,
          save_dir_files = Map.empty\<rparr>"
  by (simp add: Trainer_init_def set_device_def connect_db_def
      demo_env_def demo_config_off_def demo_config_def check_key_def getitem_def Let_def)

lemma demo_train_off:
  "\<exists>s2. train demo_engine ((demo_trainer 3 2)\<lparr>database := None\<rparr>) = Inr s2"
  by (simp add: demo_defs Let_def upto_rec1)

section \<open>Validation gating\<close>

text \<open>
  C1. With \<open>save_freq = F\<close> (not zero, for which the modulo raises) and
  \<open>num_epochs = N\<close>, validate runs the validation phase if and only if the current
  epoch is a multiple of \<open>F\<close> or is \<open>N - 1\<close>, and otherwise leaves the trainer as it
  is; for \<open>N = 10\<close> and \<open>F = 3\<close> the epochs below 10 at which the phase runs are
  exactly 0, 3, 6 and 9.
\<close>

theorem validate_gating:
  assumes "config_int (config s) ''save_freq'' = Inr F" and "F \<noteq> 0"
    and "config_int (config s) ''num_epochs'' = Inr N"
  shows "(validate eng s = validate_phase eng s \<longleftrightarrow>
            current_epoch s mod F = 0 \<or> current_epoch s = N - 1)
       \<and> (validate eng s \<noteq> validate_phase eng s \<longrightarrow> validate eng s = Inr s)
       \<and> (F = 3 \<and> N = 10 \<longrightarrow>
            {e. 0 \<le> e \<and> e < 10 \<and>
                validate eng (s\<lparr>current_epoch := e\<rparr>) = validate_phase eng (s\<lparr>current_epoch := e\<rparr>)}
            = {0, 3, 6, 9})"
proof -
  have eq: "validate eng (s\<lparr>current_epoch := e\<rparr>) =
        (if e mod F = 0 \<or> e + 1 = N then validate_phase eng (s\<lparr>current_epoch := e\<rparr>)
         else Inr (s\<lparr>current_epoch := e\<rparr>))" for e
    using assms by (simp add: validate_def cadence_hit_eq)
  have iff: "(validate eng (s\<lparr>current_epoch := e\<rparr>) = validate_phase eng (s\<lparr>current_epoch := e\<rparr>))
         \<longleftrightarrow> (e mod F = 0 \<or> e + 1 = N)" for e
    using eq[of e] validate_phase_changes[of eng "s\<lparr>current_epoch := e\<rparr>"] by auto
  have s: "s\<lparr>current_epoch := current_epoch s\<rparr> = s" by simp
  have 1: "validate eng s = validate_phase eng s \<longleftrightarrow>
            current_epoch s mod F = 0 \<or> current_epoch s = N - 1"
    using iff[of "current_epoch s"] unfolding s by auto
  have 2: "validate eng s \<noteq> validate_phase eng s \<longrightarrow> validate eng s = Inr s"
    using eq[of "current_epoch s"] unfolding s by auto
  have 3: "{e. 0 \<le> e \<and> e < 10 \<and> (e mod 3 = 0 \<or> e + 1 = 10)} = {0, 3, 6, 9::int}"
    by (auto; presburger)
  show ?thesis using 1 2 3 iff by auto
qed

theorem validate_gating_witness:
  "validate demo_engine (demo_trainer 3 10) = validate_phase demo_engine (demo_trainer 3 10)
   \<and> validate demo_engine ((demo_trainer 3 10)\<lparr>current_epoch := 4\<rparr>)
       = Inr ((demo_trainer 3 10)\<lparr>current_epoch := 4\<rparr>)
   \<and> {e. 0 \<le> e \<and> e < 10 \<and>
         validate demo_engine ((demo_trainer 3 10)\<lparr>current_epoch := e\<rparr>)
           = validate_phase demo_engine ((demo_trainer 3 10)\<lparr>current_epoch := e\<rparr>)}
       = {0, 3, 6, 9}"
proof -
  have c: "config (demo_trainer 3 10) = demo_config 3 10"
    "config ((demo_trainer 3 10)\<lparr>current_epoch := 4\<rparr>) = demo_config 3 10"
    "current_epoch (demo_trainer 3 10) = 0"
    by (simp_all add: demo_trainer_def)
  have n: "(3::int) \<noteq> 0" by simp
  show ?thesis
    using validate_gating[of "demo_trainer 3 10" 3 10 demo_engine, unfolded c, OF demo_config_ints(1) n demo_config_ints(2)]
      validate_gating[of "(demo_trainer 3 10)\<lparr>current_epoch := 4\<rparr>" 3 10 demo_engine, unfolded c,
        OF demo_config_ints(1) n demo_config_ints(2)]
    by simp
qed

section \<open>The training history\<close>

text \<open>
  C6, as stated, at a concrete run: with \<open>save_freq = 3\<close> and \<open>num_epochs = 3\<close>, after
  the two completed epochs 0 and 1 the train lists hold two entries and the val lists
  only one, since validate appended nothing at epoch 1.
\<close>

theorem history_growth_counterexample:
  "map_sum id
     (\<lambda>s. map_option (\<lambda>r. (length (train_series (losses r)), length (val_series (losses r))))
            (results s))
     (train_epochs demo_engine (demo_trainer 3 3) [0, 1]) = Inr (Some (2, 1))"
  by (simp add: demo_defs Let_def)

text \<open>
  C6, amended. Over any run of completed epochs, every list of the history keeps its
  earlier entries; the train lists grow by one entry per completed epoch, and the val
  lists by one entry per completed epoch that is a multiple of \<open>save_freq\<close> or the
  last epoch \<open>num_epochs - 1\<close>.
\<close>

theorem history_growth:
  assumes "train_epochs eng s es = Inr s'" and "results s = Some res"
    and "config_int (config s) ''save_freq'' = Inr F" and "F \<noteq> 0"
    and "config_int (config s) ''num_epochs'' = Inr N"
  shows "\<exists>res'. results s' = Some res' \<and>
           history_extends res res' (length es)
             (length (filter (\<lambda>e. e mod F = 0 \<or> e + 1 = N) es))"
  using assms
proof (induction es arbitrary: s res)
  case Nil
  then show ?case by (simp add: history_extends_refl)
next
  case (Cons i es)
  from Cons.prems(1) obtain s1 where 1: "run_epoch eng s i = Inr s1"
    and 2: "train_epochs eng s1 es = Inr s'"
    by (auto split: sum.splits)
  have c: "config s1 = config s" using run_epoch_frame[OF 1] by simp
  have hit: "cadence_hit (config s) i = Inr (i mod F = 0 \<or> i + 1 = N)"
    using Cons.prems by (simp add: cadence_hit_eq)
  from run_epoch_results[OF 1 hit] Cons.prems(2) obtain res1 where
    r1: "results s1 = Some res1" and
    h1: "history_extends res res1 1 (if i mod F = 0 \<or> i + 1 = N then 1 else 0)"
    by auto
  from Cons.IH[OF 2 r1] Cons.prems c obtain res' where
    r': "results s' = Some res'" and
    h2: "history_extends res1 res' (length es)
           (length (filter (\<lambda>e. e mod F = 0 \<or> e + 1 = N) es))"
    by auto
  have "history_extends res res' (1 + length es)
          ((if i mod F = 0 \<or> i + 1 = N then 1 else 0) +
            length (filter (\<lambda>e. e mod F = 0 \<or> e + 1 = N) es))"
    by (rule history_extends_trans[OF h1 h2])
  then show ?case using r' by (cases "i mod F = 0 \<or> i + 1 = N") auto
qed

lemma demo_run_3_3:
  "\<exists>s'. train_epochs demo_engine (demo_trainer 3 3) [0, 1] = Inr s'"
  by (simp add: demo_defs Let_def)

theorem history_growth_witness:
  "\<exists>s' res'. train_epochs demo_engine (demo_trainer 3 3) [0, 1] = Inr s' \<and>
      results s' = Some res' \<and> history_extends empty_results res' 2 1"
proof -
  from demo_run_3_3 obtain s' where run: "train_epochs demo_engine (demo_trainer 3 3) [0, 1] = Inr s'"
    by blast
  have r: "results (demo_trainer 3 3) = Some empty_results" by (simp add: demo_trainer_def)
  have c: "config (demo_trainer 3 3) = demo_config 3 3" by (simp add: demo_trainer_def)
  have n: "(3::int) \<noteq> 0" by simp
  from history_growth[OF run r, unfolded c, OF demo_config_ints(1) n demo_config_ints(2)]
  obtain res' where "results s' = Some res'" "history_extends empty_results res' 2 1"
    by (auto simp: numeral_2_eq_2)
  then show ?thesis using run by blast
qed

section \<open>Checkpoint cadence\<close>

text \<open>
  C3, as stated, at a concrete run: with \<open>save_freq = 3\<close> and \<open>num_epochs = 5\<close> the
  coordinating worker pushes three records (at the epochs 0, 3 and 4), while
  \<open>floor((N-1)/F) + 1\<close> is 2.
\<close>

theorem push_cadence_counterexample:
  "map_sum id (\<lambda>s. map_option (\<lambda>db. length (saved db)) (database s))
     (train demo_engine (demo_trainer 3 5)) = Inr (Some 3)
   \<and> nat ((5 - 1) div 3 + 1) = (2::nat)"
  using demo_train_5_3 by simp

text \<open>
  C3, amended. On the coordinating worker with the metadata store enabled, a run from
  epoch 0 with \<open>save_freq = F > 0\<close> and \<open>num_epochs = N > 0\<close> pushes one record at every
  epoch that is a multiple of \<open>F\<close> and one at the final epoch \<open>N - 1\<close>: that is
  \<open>floor((N-1)/F) + 1\<close> pushes when \<open>N - 1\<close> is a multiple of \<open>F\<close> and one more
  otherwise. After every epoch \<open>k\<close> of the run the local snapshot holds the state of
  epoch \<open>k\<close>.
\<close>

theorem push_cadence:
  assumes run: "train eng s = Inr s'" and e0: "current_epoch s = 0" and rk: "rank s = 0"
    and db: "database s = Some db"
    and F: "config_int (config s) ''save_freq'' = Inr F"
    and N: "config_int (config s) ''num_epochs'' = Inr N"
    and Fpos: "0 < F" and Npos: "0 < N"
  shows "(\<exists>db'. database s' = Some db' \<and>
            length (saved db') = length (saved db) +
              nat ((N - 1) div F + 1 + (if (N - 1) mod F = 0 then 0 else 1)))
       \<and> (\<forall>k. 0 \<le> k \<and> k < N \<longrightarrow>
            (\<exists>sk cs. train_epochs eng s [0..k] = Inr sk \<and>
               save_dir_files sk Snapshot = Some cs \<and> cs ''epoch'' = Some (Epoch k)))"
proof -
  from train_Inr[OF run] N e0 obtain s1 where
    s1: "train_epochs eng s [0..N - 1] = Inr s1" and s': "s' = close_db s1" by auto
  have Fn: "F \<noteq> 0" using Fpos by simp
  from train_epochs_database[OF s1 rk db F Fn N] obtain db1 where
    d1: "database s1 = Some db1"
      "length (saved db1) = length (saved db) +
         length (filter (\<lambda>e. e mod F = 0 \<or> e + 1 = N) [0..N - 1])" by blast
  from close_db_saved[OF d1(1)] obtain db' where
    "database s' = Some db'" "saved db' = saved db1" unfolding s' by blast
  then have A: "\<exists>db'. database s' = Some db' \<and>
            length (saved db') = length (saved db) +
              nat ((N - 1) div F + 1 + (if (N - 1) mod F = 0 then 0 else 1))"
    using d1(2) cadence_count[OF Fpos Npos] by simp
  have B: "\<exists>sk cs. train_epochs eng s [0..k] = Inr sk \<and>
               save_dir_files sk Snapshot = Some cs \<and> cs ''epoch'' = Some (Epoch k)"
    if k: "0 \<le> k" "k < N" for k
  proof -
    have split: "[0..N - 1] = [0..k] @ [k + 1..N - 1]"
      using k by (intro upto_split2) auto
    have last: "[0..k] = [0..k - 1] @ [k]" using k upto_rec2[of 0 k] by simp
    from s1 obtain sk where sk: "train_epochs eng s [0..k] = Inr sk"
      unfolding split train_epochs_append by (auto split: sum.splits)
    from sk obtain sp where sp: "train_epochs eng s [0..k - 1] = Inr sp"
      and step: "run_epoch eng sp k = Inr sk"
      unfolding last train_epochs_append by (auto split: sum.splits)
    have "rank sp = 0" using train_epochs_config[OF sp] rk by simp
    from run_epoch_snapshot[OF step this] sk show ?thesis by blast
  qed
  from A B show ?thesis by blast
qed

theorem push_cadence_witness:
  "\<exists>s' db'. train demo_engine (demo_trainer 3 5) = Inr s' \<and> database s' = Some db' \<and>
      length (saved db') = 3 \<and>
      (\<exists>sk cs. train_epochs demo_engine (demo_trainer 3 5) [0..1] = Inr sk \<and>
         save_dir_files sk Snapshot = Some cs \<and> cs ''epoch'' = Some (Epoch 1))"
proof -
  from demo_train_5_3 obtain s' where run: "train demo_engine (demo_trainer 3 5) = Inr s'"
    by (cases "train demo_engine (demo_trainer 3 5)") auto
  have e0: "current_epoch (demo_trainer 3 5) = 0" and rk: "rank (demo_trainer 3 5) = 0"
    and db: "database (demo_trainer 3 5) = Some \<lparr>saved = [], synced = False\<rparr>"
    and c: "config (demo_trainer 3 5) = demo_config 3 5"
    by (simp_all add: demo_trainer_def)
  have F: "config_int (config (demo_trainer 3 5)) ''save_freq'' = Inr 3"
    and N: "config_int (config (demo_trainer 3 5)) ''num_epochs'' = Inr 5"
    unfolding c by (rule demo_config_ints)+
  have p: "(0::int) < 3" "(0::int) < 5" by simp_all
  note t = push_cadence[OF run e0 rk db F N p]
  from t obtain db' where d: "database s' = Some db'" "length (saved db') = 3" by auto
  from t have "\<exists>sk cs. train_epochs demo_engine (demo_trainer 3 5) [0..1] = Inr sk \<and>
         save_dir_files sk Snapshot = Some cs \<and> cs ''epoch'' = Some (Epoch 1)"
    by simp
  with run d show ?thesis by blast
qed

section \<open>Resume\<close>

text \<open>
  C2. When the file at the resume path holds the dictionary that save_checkpoint
  built at epoch \<open>E\<close>, load_checkpoint on the trainer under construction (no history
  yet, device set) succeeds and sets \<open>current_epoch\<close> to \<open>E + 1\<close>, the history, the best
  accuracy, the model state and the optimizer state to the saved ones; every epoch of
  the range the loop then runs lies above \<open>E\<close>.
\<close>

theorem resume_round_trip:
  assumes "curr_state s = Inr cs"
    and "config t ''resume_checkpoint'' = Some (PyStr p)" and "fs p = Some cs"
    and "use_tpu t \<or> (\<exists>g. gpu_ids t = Some g \<and> py_len g = Inr 1)"
    and "results t = None"
  shows "\<exists>t'. load_checkpoint fs t = Inr t' \<and> current_epoch t' = current_epoch s + 1 \<and>
           results t' = results s \<and> best_acc t' = best_acc s \<and>
           model t' = model s \<and> optimizer t' = optimizer s \<and>
           (\<forall>N. \<forall>e \<in> set [current_epoch t'..N - 1]. current_epoch s < e)"
proof -
  from curr_state_Inr[OF assms(1)] obtain res best where
    res: "results s = Some res" and best: "best_acc s = Some best" and
    cs: "cs = [''epoch'' \<mapsto> Epoch (current_epoch s), ''state_dict'' \<mapsto> StateDict (model s),
            ''optimizer'' \<mapsto> OptimizerState (optimizer s), ''results'' \<mapsto> Results res,
            ''curr_best_acc'' \<mapsto> BestAcc best]" by blast
  have f: "cs ''epoch'' = Some (Epoch (current_epoch s))" "cs ''results'' = Some (Results res)"
    "cs ''state_dict'' = Some (StateDict (model s))"
    "cs ''optimizer'' = Some (OptimizerState (optimizer s))"
    "cs ''curr_best_acc'' = Some (BestAcc best)"
    unfolding cs by simp_all
  have l: "load_checkpoint fs t =
           Inr (t\<lparr>current_epoch := current_epoch s + 1, results := Some res, model := model s,
                  optimizer := optimizer s, best_acc := Some best\<rparr>)"
    using assms(2,3,4) f assms(5) by (rule load_checkpoint_ok[where fs=fs and p=p and cpt=cs and t=t])
  show ?thesis unfolding l using res best by simp
qed

theorem resume_round_trip_witness:
  "\<exists>t'. load_checkpoint demo_files (demo_fresh 3 10) = Inr t' \<and> current_epoch t' = 5 \<and>
      results t' = Some empty_results \<and> best_acc t' = Some 50 \<and> model t' = 5 \<and>
      optimizer t' = 5 \<and> 4 \<notin> set [current_epoch t'..9]"
proof -
  have c: "config (demo_fresh 3 10) ''resume_checkpoint'' = Some (PyStr ''ckpt.pt'')"
    by (simp add: demo_fresh_def demo_resume_config_def)
  have f: "demo_files ''ckpt.pt'' = Some demo_checkpoint" by (simp add: demo_files_def)
  have d: "use_tpu (demo_fresh 3 10) \<or>
      (\<exists>g. gpu_ids (demo_fresh 3 10) = Some g \<and> py_len g = Inr 1)"
    by (simp add: demo_fresh_def)
  have r: "results (demo_fresh 3 10) = None" by (simp add: demo_fresh_def)
  from resume_round_trip[where fs=demo_files and p="''ckpt.pt''" and t="demo_fresh 3 10", OF demo_curr_state c f d r]
  obtain t' where
    t: "load_checkpoint demo_files (demo_fresh 3 10) = Inr t'"
      "current_epoch t' = current_epoch demo_saved + 1" "results t' = results demo_saved"
      "best_acc t' = best_acc demo_saved" "model t' = model demo_saved"
      "optimizer t' = optimizer demo_saved"
      "\<forall>N. \<forall>e \<in> set [current_epoch t'..N - 1]. current_epoch demo_saved < e"
    by blast
  have s: "current_epoch demo_saved = 4" "results demo_saved = Some empty_results"
    "best_acc demo_saved = Some 50" "model demo_saved = 5" "optimizer demo_saved = 5"
    by (simp_all add: demo_saved_def demo_trainer_def)
  from t(7)[unfolded s, THEN spec, of 10] have "4 \<notin> set [current_epoch t'..9]"
    by auto
  with t s show ?thesis by auto
qed

section \<open>Records pushed to the metadata store\<close>

text \<open>
  C9. A save_checkpoint either leaves the database as it is or, on rank 0 only,
  appends one record whose keys are exactly exp_id, epoch, results and curr_best_acc,
  holding the experiment id of the configuration, the current epoch, the history and
  the best accuracy, and neither the model state nor the optimizer state. The
  configuration, the epoch counter, the model and optimizer states, the history, the
  best accuracy and the flag are unchanged; whatever the keys, \<open>_save_to_db\<close> changes
  no attribute but the database, and nothing at all on another rank.
\<close>

theorem db_record:
  fixes s :: "('m, 'o) trainer"
  assumes "save_checkpoint s = Inr s'"
  shows "(database s' = database s \<or>
          (rank s = 0 \<and>
           (\<exists>db x res best rec. database s = Some db \<and> config s ''exp_id'' = Some x \<and>
              results s = Some res \<and> best_acc s = Some best \<and>
              database s' = Some (db\<lparr>saved := saved db @ [rec]\<rparr>) \<and>
              dom rec = {''exp_id'', ''epoch'', ''results'', ''curr_best_acc''} \<and>
              rec ''exp_id'' = Some (ExpId x) \<and> rec ''epoch'' = Some (Epoch (current_epoch s)) \<and>
              rec ''results'' = Some (Results res) \<and> rec ''curr_best_acc'' = Some (BestAcc best) \<and>
              rec ''state_dict'' = None \<and> rec ''optimizer'' = None)))
       \<and> config s' = config s \<and> rank s' = rank s \<and> current_epoch s' = current_epoch s
       \<and> model s' = model s \<and> optimizer s' = optimizer s \<and> results s' = results s
       \<and> best_acc s' = best_acc s \<and> is_best s' = is_best s
       \<and> (\<forall>cs ks s1. save_to_db s cs ks = Inr s1 \<longrightarrow>
             s1 = s\<lparr>database := database s1\<rparr> \<and> (rank s \<noteq> 0 \<longrightarrow> s1 = s))"
proof -
  from save_checkpoint_database[OF assms] obtain hit res best where
    hit: "cadence_hit (config s) (current_epoch s) = Inr hit" and
    res: "results s = Some res" and best: "best_acc s = Some best" and
    d: "if hit \<and> rank s = 0 \<and> database s \<noteq> None
            then \<exists>x. config s ''exp_id'' = Some x \<and>
                   database s' = map_option (\<lambda>db. db\<lparr>saved := saved db @
                      [[''exp_id'' \<mapsto> ExpId x, ''curr_best_acc'' \<mapsto> BestAcc best,
                        ''results'' \<mapsto> Results res, ''epoch'' \<mapsto> Epoch (current_epoch s)]]\<rparr>)
                      (database s)
            else database s' = database s"
    by blast
  have A: "database s' = database s \<or>
          (rank s = 0 \<and>
           (\<exists>db x res best rec. database s = Some db \<and> config s ''exp_id'' = Some x \<and>
              results s = Some res \<and> best_acc s = Some best \<and>
              database s' = Some (db\<lparr>saved := saved db @ [rec]\<rparr>) \<and>
              dom rec = {''exp_id'', ''epoch'', ''results'', ''curr_best_acc''} \<and>
              rec ''exp_id'' = Some (ExpId x) \<and> rec ''epoch'' = Some (Epoch (current_epoch s)) \<and>
              rec ''results'' = Some (Results res) \<and> rec ''curr_best_acc'' = Some (BestAcc best) \<and>
              rec ''state_dict'' = None \<and> rec ''optimizer'' = None))"
  proof (cases "hit \<and> rank s = 0 \<and> database s \<noteq> None")
    case False
    then show ?thesis using d unfolding if_not_P[OF False] by simp
  next
    case True
    then obtain db where db: "database s = Some db" and rk: "rank s = 0" by auto
    from d obtain x where x: "config s ''exp_id'' = Some x" and
      d': "database s' = map_option (\<lambda>db. db\<lparr>saved := saved db @
                      [[''exp_id'' \<mapsto> ExpId x, ''curr_best_acc'' \<mapsto> BestAcc best,
                        ''results'' \<mapsto> Results res, ''epoch'' \<mapsto> Epoch (current_epoch s)]]\<rparr>)
                      (database s)"
      unfolding if_P[OF True] by blast
    define rec :: "('m, 'o) state" where "rec = [''exp_id'' \<mapsto> ExpId x, ''curr_best_acc'' \<mapsto> BestAcc best,
                        ''results'' \<mapsto> Results res, ''epoch'' \<mapsto> Epoch (current_epoch s)]"
    have r1: "dom rec = {''exp_id'', ''epoch'', ''results'', ''curr_best_acc''}"
      unfolding rec_def by auto
    have r2: "rec ''exp_id'' = Some (ExpId x)" "rec ''epoch'' = Some (Epoch (current_epoch s))"
      "rec ''results'' = Some (Results res)" "rec ''curr_best_acc'' = Some (BestAcc best)"
      "rec ''state_dict'' = None" "rec ''optimizer'' = None"
      unfolding rec_def by simp_all
    have "database s' = Some (db\<lparr>saved := saved db @ [rec]\<rparr>)"
      using d' db unfolding rec_def by simp
    with db rk x res best r1 r2 show ?thesis by blast
  qed
  have B: "config s' = config s \<and> rank s' = rank s \<and> current_epoch s' = current_epoch s
       \<and> model s' = model s \<and> optimizer s' = optimizer s \<and> results s' = results s
       \<and> best_acc s' = best_acc s \<and> is_best s' = is_best s"
    using save_checkpoint_frame[OF assms] by simp
  have C: "\<forall>cs ks s1. save_to_db s cs ks = Inr s1 \<longrightarrow>
             s1 = s\<lparr>database := database s1\<rparr> \<and> (rank s \<noteq> 0 \<longrightarrow> s1 = s)"
    using save_to_db_frame_rank by blast
  from A B C show ?thesis by blast
qed

theorem db_record_witness:
  "\<exists>s' rec. save_checkpoint (demo_trainer 3 5) = Inr s' \<and>
      database s' = Some \<lparr>saved = [rec], synced = False\<rparr> \<and>
      dom rec = {''exp_id'', ''epoch'', ''results'', ''curr_best_acc''} \<and>
      rec ''exp_id'' = Some (ExpId (PyStr ''exp'')) \<and> rec ''epoch'' = Some (Epoch 0) \<and>
      rec ''results'' = Some (Results empty_results) \<and> rec ''curr_best_acc'' = Some (BestAcc (- 1)) \<and>
      rec ''state_dict'' = None \<and> rec ''optimizer'' = None \<and>
      model s' = 0 \<and> optimizer s' = 0 \<and> results s' = Some empty_results"
proof -
  from demo_save_0 obtain s' where run: "save_checkpoint (demo_trainer 3 5) = Inr s'"
    and len: "map_option (\<lambda>db. length (saved db)) (database s') = Some 1"
    by (cases "save_checkpoint (demo_trainer 3 5)") auto
  have f: "database (demo_trainer 3 5) = Some \<lparr>saved = [], synced = False\<rparr>"
    "config (demo_trainer 3 5) ''exp_id'' = Some (PyStr ''exp'')"
    "results (demo_trainer 3 5) = Some empty_results" "best_acc (demo_trainer 3 5) = Some (- 1)"
    "current_epoch (demo_trainer 3 5) = 0" "model (demo_trainer 3 5) = 0"
    "optimizer (demo_trainer 3 5) = 0"
    by (simp_all add: demo_trainer_def demo_config_def)
  note t = db_record[OF run]
  have ne: "database s' \<noteq> database (demo_trainer 3 5)" using len f(1) by auto
  with t f obtain rec where
    "database s' = Some (\<lparr>saved = [], synced = False\<rparr>\<lparr>saved := [] @ [rec]\<rparr>)"
    "dom rec = {''exp_id'', ''epoch'', ''results'', ''curr_best_acc''}"
    "rec ''exp_id'' = Some (ExpId (PyStr ''exp''))" "rec ''epoch'' = Some (Epoch 0)"
    "rec ''results'' = Some (Results empty_results)" "rec ''curr_best_acc'' = Some (BestAcc (- 1))"
    "rec ''state_dict'' = None" "rec ''optimizer'' = None"
    by auto
  moreover from t f have "model s' = 0" "optimizer s' = 0" "results s' = Some empty_results"
    by simp_all
  ultimately show ?thesis using run by auto
qed

section \<open>The database keys of the configuration\<close>

text \<open>
  C10. Whatever \<open>use_mongodb\<close> says, construction fails when one of the keys db_name,
  coll_name, exp_id is missing from the configuration or is None: no trainer exists
  and training cannot start. When \<open>use_mongodb\<close> is false the constructed trainer has
  no database; on a trainer with no database \<open>_save_to_db\<close> returns the trainer as
  it is, close_db does nothing, and a whole run of train leaves the trainer without a
  database.
\<close>

theorem db_keys_required:
  "((k = ''db_name'' \<or> k = ''coll_name'' \<or> k = ''exp_id'') \<and>
      (cfg k = None \<or> cfg k = Some PyNone)
      \<longrightarrow> (\<exists>e. Trainer_init env cfg = Inl e) \<and>
          (\<exists>e. SupervisedImageNetTrainer_init env cfg = Inl e))
   \<and> (Trainer_init env cfg = Inr s \<and> cfg ''use_mongodb'' = Some (PyBool False)
      \<longrightarrow> database s = None)
   \<and> (database s1 = None \<and> config s1 ''exp_id'' = Some x \<and> select_keys cs ks = Inr d
      \<longrightarrow> save_to_db s1 cs ks = Inr s1)
   \<and> (database s1 = None \<longrightarrow> close_db s1 = s1)
   \<and> (database s1 = None \<and> train eng s1 = Inr s2 \<longrightarrow> database s2 = None)"
proof -
  have ok: "cfg ''db_name'' \<noteq> None \<and> cfg ''coll_name'' \<noteq> None \<and> cfg ''exp_id'' \<noteq> None \<and>
         cfg ''db_name'' \<noteq> Some PyNone \<and> cfg ''coll_name'' \<noteq> Some PyNone \<and>
         cfg ''exp_id'' \<noteq> Some PyNone \<and>
         (cfg ''use_mongodb'' = Some (PyBool False) \<longrightarrow> database t = None)"
    if "Trainer_init env cfg = Inr t" for t
    using Trainer_init_database[OF that] connect_db_Inr by blast
  have A: "(\<exists>e. Trainer_init env cfg = Inl e) \<and>
          (\<exists>e. SupervisedImageNetTrainer_init env cfg = Inl e)"
    if "k = ''db_name'' \<or> k = ''coll_name'' \<or> k = ''exp_id''" "cfg k = None \<or> cfg k = Some PyNone"
  proof -
    have "\<exists>e. Trainer_init env cfg = Inl e"
    proof (cases "Trainer_init env cfg")
      case (Inl e)
      then show ?thesis by blast
    next
      case (Inr t)
      from ok[OF this] that show ?thesis by auto
    qed
    then show ?thesis using SupervisedImageNetTrainer_init_fails by blast
  qed
  have B: "database s = None"
    if "Trainer_init env cfg = Inr s" "cfg ''use_mongodb'' = Some (PyBool False)"
    using ok[OF that(1)] that(2) by simp
  have C: "save_to_db s1 cs ks = Inr s1"
    if "database s1 = None" "config s1 ''exp_id'' = Some x" "select_keys cs ks = Inr d"
    using that by (simp add: save_to_db_def getitem_def)
  have D: "database s1 = None \<longrightarrow> close_db s1 = s1"
    by (simp add: close_db_def)
  have E: "database s2 = None" if "database s1 = None" "train eng s1 = Inr s2"
  proof -
    from train_Inr[OF that(2)] obtain N u where
      u: "train_epochs eng s1 [current_epoch s1..N - 1] = Inr u" and s2: "s2 = close_db u"
      by blast
    from train_epochs_no_database[OF u that(1)] show ?thesis
      unfolding s2 by (simp add: close_db_def)
  qed
  from A B C D E show ?thesis by blast
qed


theorem db_keys_required_witness:
  "(\<exists>e. Trainer_init demo_env (demo_config_off(''exp_id'' \<mapsto> PyNone)) = Inl e)
   \<and> (\<exists>e. SupervisedImageNetTrainer_init demo_env (demo_config_off(''exp_id'' \<mapsto> PyNone)) = Inl e)
   \<and> (\<exists>s. Trainer_init demo_env demo_config_off = Inr s \<and> database s = None)
   \<and> save_to_db ((demo_trainer 3 2)\<lparr>database := None\<rparr>) demo_checkpoint [''epoch'']
       = Inr ((demo_trainer 3 2)\<lparr>database := None\<rparr>)
   \<and> close_db ((demo_trainer 3 2)\<lparr>database := None\<rparr>) = (demo_trainer 3 2)\<lparr>database := None\<rparr>
   \<and> (\<exists>s2. train demo_engine ((demo_trainer 3 2)\<lparr>database := None\<rparr>) = Inr s2 \<and>
         database s2 = None)"
proof -
  from demo_train_off obtain s2 where
    run: "train demo_engine ((demo_trainer 3 2)\<lparr>database := None\<rparr>) = Inr s2" by blast
  have k: "(demo_config_off(''exp_id'' \<mapsto> PyNone)) ''exp_id'' = Some PyNone" by simp
  have u: "demo_config_off ''use_mongodb'' = Some (PyBool False)"
    by (simp add: demo_config_off_def)
  have n: "database ((demo_trainer 3 2)\<lparr>database := None\<rparr>) = None" by simp
  have x: "config ((demo_trainer 3 2)\<lparr>database := None\<rparr>) ''exp_id'' = Some (PyStr ''exp'')"
    by (simp add: demo_trainer_def demo_config_def)
  have sel: "select_keys demo_checkpoint [''epoch''] = Inr [''epoch'' \<mapsto> Epoch 4]"
    by (simp add: demo_checkpoint_def getitem_def)
  note t1 = db_keys_required[where k="''exp_id''" and cfg="demo_config_off(''exp_id'' \<mapsto> PyNone)"
      and env=demo_env]
  note t2 = db_keys_required[where cfg=demo_config_off and env=demo_env
      and ?s1.0="(demo_trainer 3 2)\<lparr>database := None\<rparr>" and x="PyStr ''exp''"
      and cs=demo_checkpoint and ks="[''epoch'']" and d="[''epoch'' \<mapsto> Epoch 4]"
      and eng=demo_engine and ?s2.0=s2]
  from t1 k have A: "(\<exists>e. Trainer_init demo_env (demo_config_off(''exp_id'' \<mapsto> PyNone)) = Inl e)
     \<and> (\<exists>e. SupervisedImageNetTrainer_init demo_env (demo_config_off(''exp_id'' \<mapsto> PyNone)) = Inl e)"
    by blast
  from t2 demo_init_off u have B: "\<exists>s. Trainer_init demo_env demo_config_off = Inr s \<and> database s = None"
    by blast
  from t2 n x sel have C: "save_to_db ((demo_trainer 3 2)\<lparr>database := None\<rparr>) demo_checkpoint [''epoch'']
       = Inr ((demo_trainer 3 2)\<lparr>database := None\<rparr>)" by blast
  from t2 n have D: "close_db ((demo_trainer 3 2)\<lparr>database := None\<rparr>) = (demo_trainer 3 2)\<lparr>database := None\<rparr>"
    by blast
  from t2 n run have E: "database s2 = None" by blast
  from A B C D E run show ?thesis by blast
qed

section \<open>The flag of the best checkpoint\<close>

text \<open>
  C7, at the failing run: with \<open>save_freq = 3\<close> and \<open>num_epochs = 5\<close>, after the epochs
  0 and 1 only one validation has run (at epoch 0, which set the flag), and the flag
  save_checkpoint consumed at epoch 1 is still true, carried over from epoch 0: the
  best-tagged copy holds the state of epoch 1, which was never validated.
\<close>

theorem stale_best_flag:
  "map_sum id
     (\<lambda>s. (is_best s, map_option (\<lambda>r. length (val_series (accs_top1 r))) (results s),
            map_option (\<lambda>cs. cs ''epoch'') (save_dir_files s BestCopy)))
     (train_epochs demo_engine (demo_trainer 3 5) [0, 1])
   = Inr (Some True, Some 1, Some (Some (Epoch 1)))"
  by (simp add: demo_defs Let_def upt_rec)


end
